theory Spec2Isabelle
  imports Main
begin

section \<open>Python values met by the dashboard\<close>

text \<open>
  The program of \<^verbatim>\<open>streamlit_app.py\<close> handles untyped Python values: cells of
  provider tables, column labels, the entries of the metadata dictionary and the
  fields of the dictionary that \<^verbatim>\<open>load_data\<close> returns. They are modelled by one
  datatype. A float is either a finite dyadic number (sign, mantissa, binary exponent:
  every IEEE double is one), an infinity or NaN.
\<close>

datatype pyfloat = Finite bool nat int | Inf bool | NaN

datatype pyval =
    VNone
  | VBool bool
  | VInt int
  | VFloat pyfloat
  | VStr string
  | VTimestamp nat nat nat
  | VNaT

text \<open>Exceptions are values. \<open>ProviderError\<close> stands for whatever the data provider raises.\<close>

datatype exn =
    KeyError
  | ValueError
  | TypeError
  | OverflowError
  | AttributeError
  | IndexError
  | ProviderError string

text \<open>
  Library functions whose code is not part of the repository are parameters of the
  model: \<^verbatim>\<open>str(x)\<close>, \<^verbatim>\<open>float(s)\<close> on a string and \<^verbatim>\<open>pd.to_datetime(s)\<close>.
\<close>

record pylib =
  py_str :: "pyval \<Rightarrow> string"
  float_of_str :: "string \<Rightarrow> exn + pyfloat"
  to_datetime :: "string \<Rightarrow> exn + pyval"

text \<open>\<^verbatim>\<open>try: body except Exception: handler\<close>\<close>

definition try_except :: "exn + 'a \<Rightarrow> (exn + 'a) \<Rightarrow> exn + 'a" where
  "try_except body handler = (case body of Inl e \<Rightarrow> handler | Inr v \<Rightarrow> Inr v)"

text \<open>Sequencing: the first exception ends the computation.\<close>

definition bind_exn :: "exn + 'a \<Rightarrow> ('a \<Rightarrow> exn + 'b) \<Rightarrow> exn + 'b" where
  "bind_exn m f = (case m of Inl e \<Rightarrow> Inl e | Inr v \<Rightarrow> f v)"

subsection \<open>Truth value, missing values, conversion to float\<close>

fun py_truthy :: "pyval \<Rightarrow> bool" where
  "py_truthy VNone = False"
| "py_truthy (VBool b) = b"
| "py_truthy (VInt i) = (i \<noteq> 0)"
| "py_truthy (VFloat (Finite s m e)) = (m \<noteq> 0)"
| "py_truthy (VFloat f) = True"
| "py_truthy (VStr s) = (s \<noteq> [])"
| "py_truthy (VTimestamp y m d) = True"
| "py_truthy VNaT = True"

text \<open>\<^verbatim>\<open>a or b\<close>\<close>

definition py_or :: "pyval \<Rightarrow> pyval \<Rightarrow> pyval" where
  "py_or a b = (if py_truthy a then a else b)"

text \<open>\<^verbatim>\<open>pd.isna(x)\<close> on a scalar.\<close>

fun isna :: "pyval \<Rightarrow> bool" where
  "isna VNone = True"
| "isna (VFloat NaN) = True"
| "isna VNaT = True"
| "isna x = False"

fun bit_length :: "nat \<Rightarrow> nat" where
  "bit_length n = (if n = 0 then 0 else Suc (bit_length (n div 2)))"

declare bit_length.simps [simp del]

text \<open>
  \<^verbatim>\<open>float(i)\<close> for a Python int: exact below \<open>2^53\<close>, otherwise rounded to 53
  significant bits, ties to even; OverflowError when the rounded value leaves the
  range of a double.
\<close>

definition float_of_int :: "int \<Rightarrow> exn + pyfloat" where
  "float_of_int i =
     (let m = nat \<bar>i\<bar>; neg = (i < 0) in
      if m < 2 ^ 53 then Inr (Finite neg m 0)
      else
        let k = bit_length m - 53;
            q = m div 2 ^ k;
            r = m mod 2 ^ k;
            half = 2 ^ (k - 1);
            q' = (if half < r \<or> (r = half \<and> odd q) then q + 1 else q)
        in if 2 ^ 1024 \<le> q' * 2 ^ k then Inl OverflowError
           else Inr (Finite neg q' (int k)))"

text \<open>\<^verbatim>\<open>float(x)\<close>\<close>

fun py_float :: "pylib \<Rightarrow> pyval \<Rightarrow> exn + pyfloat" where
  "py_float lib VNone = Inl TypeError"
| "py_float lib (VBool b) = Inr (Finite False (if b then 1 else 0) 0)"
| "py_float lib (VInt i) = float_of_int i"
| "py_float lib (VFloat f) = Inr f"
| "py_float lib (VStr s) = float_of_str lib s"
| "py_float lib (VTimestamp y m d) = Inl TypeError"
| "py_float lib VNaT = Inl TypeError"

subsection \<open>The format \<^verbatim>\<open>{:,.0f}\<close>\<close>

definition digit_char :: "nat \<Rightarrow> char" where
  "digit_char d = ''0123456789'' ! d"

fun dec_digits :: "nat \<Rightarrow> string" where
  "dec_digits n =
     (if n < 10 then [digit_char n]
      else dec_digits (n div 10) @ [digit_char (n mod 10)])"

declare dec_digits.simps [simp del]

text \<open>A comma before every group of three digits, counted from the right.\<close>

fun group3 :: "string \<Rightarrow> string" where
  "group3 ds =
     (if length ds \<le> 3 then ds
      else group3 (take (length ds - 3) ds) @ CHR '','' # drop (length ds - 3) ds)"

declare group3.simps [simp del]

text \<open>Rounding \<open>m * 2^e\<close> to an integer, ties to even.\<close>

definition round_half_even :: "nat \<Rightarrow> int \<Rightarrow> nat" where
  "round_half_even m e =
     (if 0 \<le> e then m * 2 ^ nat e
      else
        let d = 2 ^ nat (- e); q = m div d; r = m mod d
        in if d < 2 * r \<or> (2 * r = d \<and> odd q) then q + 1 else q)"

fun format_comma0 :: "pyfloat \<Rightarrow> string" where
  "format_comma0 (Finite neg m e) =
     (if neg then ''-'' else '''') @ group3 (dec_digits (round_half_even m e))"
| "format_comma0 (Inf neg) = (if neg then ''-inf'' else ''inf'')"
| "format_comma0 NaN = ''nan''"

subsection \<open>The cell formatter \<^verbatim>\<open>fmt\<close> of \<^verbatim>\<open>format_commas\<close>\<close>

definition fmt :: "pylib \<Rightarrow> pyval \<Rightarrow> pyval" where
  "fmt lib x =
     (case try_except
        (if isna x then Inr (VStr '''')
         else case py_float lib x of
                Inl e \<Rightarrow> Inl e
              | Inr f \<Rightarrow> Inr (VStr (format_comma0 f)))
        (Inr x)
      of Inr v \<Rightarrow> v | Inl e \<Rightarrow> x)"

section \<open>Tables\<close>

text \<open>
  A pandas DataFrame with a single-level row index: the row labels and the columns in
  order, each column a label with its cells. Column labels need not be distinct.
\<close>

record frame =
  idx :: "pyval list"
  cols :: "(pyval \<times> pyval list) list"

text \<open>\<^verbatim>\<open>df.empty\<close>: some axis has length zero.\<close>

definition empty_frame :: "frame \<Rightarrow> bool" where
  "empty_frame d = (idx d = [] \<or> cols d = [])"

text \<open>
  \<^verbatim>\<open>df[[k1, ..., kn]]\<close>: selection by label. Every column carrying a requested label
  is selected; a label that no column carries raises KeyError.
\<close>

definition select_cols :: "pyval list \<Rightarrow> frame \<Rightarrow> exn + frame" where
  "select_cols ks d =
     (if \<exists>k \<in> set ks. k \<notin> fst ` set (cols d) then Inl KeyError
      else Inr (d\<lparr>cols := concat (map (\<lambda>k. filter (\<lambda>c. fst c = k) (cols d)) ks)\<rparr>))"

text \<open>\<^verbatim>\<open>df.reset_index()\<close>: the row labels become the first column, rows are renumbered.\<close>

definition reset_index :: "frame \<Rightarrow> frame" where
  "reset_index d =
     \<lparr>idx = map (\<lambda>i. VInt (int i)) [0..<length (idx d)],
      cols = (VStr ''index'', idx d) # cols d\<rparr>"

text \<open>\<^verbatim>\<open>df.columns = names\<close>: ValueError unless there is one name for each column.\<close>

definition set_columns :: "pyval list \<Rightarrow> frame \<Rightarrow> exn + frame" where
  "set_columns names d =
     (if length names \<noteq> length (cols d) then Inl ValueError
      else Inr (d\<lparr>cols := zip names (map snd (cols d))\<rparr>))"

section \<open>The pipeline \<^verbatim>\<open>load_data\<close>\<close>

text \<open>The inner function \<^verbatim>\<open>latest_col\<close>, returning the pair \<^verbatim>\<open>(out, col)\<close>.\<close>

definition latest_col :: "frame option \<Rightarrow> exn + (frame option \<times> pyval option)" where
  "latest_col df =
     (case df of
        None \<Rightarrow> Inr (None, None)
      | Some d \<Rightarrow>
          if empty_frame d then Inr (None, None)
          else
            (case cols d of
               [] \<Rightarrow> Inl IndexError
             | c # _ \<Rightarrow>
                 let col = fst c in
                 (case select_cols [col] d of
                    Inl e \<Rightarrow> Inl e
                  | Inr sel \<Rightarrow>
                      (case set_columns [VStr ''Item'', VStr ''Value''] (reset_index sel) of
                         Inl e \<Rightarrow> Inl e
                       | Inr out \<Rightarrow> Inr (Some out, Some col)))))"

text \<open>Zero-padded decimal, as \<^verbatim>\<open>%Y\<close>, \<^verbatim>\<open>%m\<close> and \<^verbatim>\<open>%d\<close> print it.\<close>

definition zero_pad :: "nat \<Rightarrow> nat \<Rightarrow> string" where
  "zero_pad w n = replicate (w - length (dec_digits n)) CHR ''0'' @ dec_digits n"

text \<open>
  \<^verbatim>\<open>x.strftime("%Y-%m-%d")\<close>: defined on a Timestamp; NaT raises ValueError and the
  other values have no such method. The year of a pandas timestamp has four digits, so
  the padding of \<^verbatim>\<open>%Y\<close> never shows.
\<close>

fun strftime_ymd :: "pyval \<Rightarrow> exn + pyval" where
  "strftime_ymd (VTimestamp y m d) =
     Inr (VStr (zero_pad 4 y @ ''-'' @ zero_pad 2 m @ ''-'' @ zero_pad 2 d))"
| "strftime_ymd VNaT = Inl ValueError"
| "strftime_ymd x = Inl AttributeError"

text \<open>The inner function \<^verbatim>\<open>pretty_period\<close>.\<close>

definition pretty_period :: "pylib \<Rightarrow> pyval option \<Rightarrow> exn + pyval" where
  "pretty_period lib col =
     (case col of
        None \<Rightarrow> Inr (VStr ''N/A'')
      | Some c \<Rightarrow>
          try_except
            (case to_datetime lib (py_str lib c) of
               Inl e \<Rightarrow> Inl e
             | Inr t \<Rightarrow> strftime_ymd t)
            (Inr (VStr (py_str lib c))))"

text \<open>
  The provider object \<^verbatim>\<open>yf.Ticker(tkr)\<close>: each of the five calls that \<^verbatim>\<open>load_data\<close>
  makes either raises or returns. \<^verbatim>\<open>get_info\<close> returns a dictionary or None, the
  statement properties a table or None.
\<close>

record provider =
  get_info :: "string \<Rightarrow> exn + (string \<times> pyval) list option"
  history :: "string \<Rightarrow> exn + frame"
  income_stmt :: "string \<Rightarrow> exn + frame option"
  balance_sheet :: "string \<Rightarrow> exn + frame option"
  cashflow :: "string \<Rightarrow> exn + frame option"

text \<open>\<^verbatim>\<open>d.get(k)\<close>\<close>

definition dict_get :: "(string \<times> pyval) list \<Rightarrow> string \<Rightarrow> pyval" where
  "dict_get d k = (case map_of d k of None \<Rightarrow> VNone | Some v \<Rightarrow> v)"

text \<open>The dictionary that \<^verbatim>\<open>load_data\<close> returns.\<close>

record fetch_result =
  name :: pyval
  hist :: frame
  inc :: "frame option"
  inc_period :: pyval
  bal :: "frame option"
  bal_period :: pyval
  cf :: "frame option"
  cf_period :: pyval

text \<open>Lines 20 to 26: the metadata lookup inside its \<^verbatim>\<open>try\<close>.\<close>

definition load_name :: "provider \<Rightarrow> string \<Rightarrow> pyval" where
  "load_name prov tkr =
     (case get_info prov tkr of
        Inl e \<Rightarrow> VNone
      | Inr r \<Rightarrow>
          let info = (case r of None \<Rightarrow> [] | Some d \<Rightarrow> if d = [] then [] else d)
          in py_or (dict_get info ''longName'') (dict_get info ''shortName''))"

text \<open>Lines 29 to 31: the price history, reduced to its close column unless empty.\<close>

definition load_hist :: "provider \<Rightarrow> string \<Rightarrow> exn + frame" where
  "load_hist prov tkr =
     (case history prov tkr of
        Inl e \<Rightarrow> Inl e
      | Inr h \<Rightarrow> if \<not> empty_frame h then select_cols [VStr ''Close''] h else Inr h)"

definition load_data :: "pylib \<Rightarrow> provider \<Rightarrow> string \<Rightarrow> exn + fetch_result" where
  "load_data lib prov tkr =
     (let nm = load_name prov tkr in
      bind_exn (load_hist prov tkr) (\<lambda>h.
      bind_exn (income_stmt prov tkr) (\<lambda>income_a.
      bind_exn (balance_sheet prov tkr) (\<lambda>balance_a.
      bind_exn (cashflow prov tkr) (\<lambda>cashflow_a.
      bind_exn (latest_col income_a) (\<lambda>(inc_latest, inc_col).
      bind_exn (latest_col balance_a) (\<lambda>(bal_latest, bal_col).
      bind_exn (latest_col cashflow_a) (\<lambda>(cf_latest, cf_col).
      bind_exn (pretty_period lib inc_col) (\<lambda>ip.
      bind_exn (pretty_period lib bal_col) (\<lambda>bp.
      bind_exn (pretty_period lib cf_col) (\<lambda>cp.
      Inr \<lparr>name = nm, hist = h,
           inc = inc_latest, inc_period = ip,
           bal = bal_latest, bal_period = bp,
           cf = cf_latest, cf_period = cp\<rparr>)))))))))))"

text \<open>
  The rows of a statement snapshot, as the callers read them: an absent table and an
  empty one both stand for no rows; otherwise the cells of the columns Item and Value.
\<close>

definition column :: "frame \<Rightarrow> pyval \<Rightarrow> pyval list" where
  "column d k = (case map_of (cols d) k of None \<Rightarrow> [] | Some vs \<Rightarrow> vs)"

definition snapshot_rows :: "frame option \<Rightarrow> (pyval \<times> pyval) list" where
  "snapshot_rows t =
     (case t of
        None \<Rightarrow> []
      | Some d \<Rightarrow> if empty_frame d then []
                  else zip (column d (VStr ''Item'')) (column d (VStr ''Value'')))"

section \<open>The table formatter \<^verbatim>\<open>format_commas\<close>\<close>

text \<open>
  Tables are objects: \<^verbatim>\<open>format_commas\<close> receives a reference and returns one. The
  heap is the list of the tables allocated so far, a reference is a position in it.
  \<^verbatim>\<open>df.copy()\<close> allocates a new table with the same content.
\<close>

type_synonym heap = "frame list"

text \<open>
  \<^verbatim>\<open>out["Value"] = out["Value"].apply(fmt)\<close>. Where one column carries the label, its
  cells are mapped. Where several do, \<^verbatim>\<open>out["Value"]\<close> is a table, \<^verbatim>\<open>fmt\<close> receives
  whole columns, the test of \<^verbatim>\<open>pd.isna\<close> raises inside the \<^verbatim>\<open>try\<close> and every column
  comes back as it was.
\<close>

definition apply_value :: "(pyval \<Rightarrow> pyval) \<Rightarrow> frame \<Rightarrow> frame" where
  "apply_value f d =
     (if count_list (map fst (cols d)) (VStr ''Value'') = 1
      then d\<lparr>cols := map (\<lambda>c. if fst c = VStr ''Value'' then (fst c, map f (snd c)) else c) (cols d)\<rparr>
      else d)"

definition format_commas :: "pylib \<Rightarrow> heap \<Rightarrow> nat option \<Rightarrow> heap \<times> nat option" where
  "format_commas lib h df =
     (case df of
        None \<Rightarrow> (h, None)
      | Some a \<Rightarrow>
          if empty_frame (h ! a) then (h, Some a)
          else
            let out = length h;
                h1 = h @ [h ! a];
                h2 = (if VStr ''Value'' \<in> fst ` set (cols (h1 ! out))
                      then h1[out := apply_value (fmt lib) (h1 ! out)]
                      else h1)
            in (h2, Some out))"

section \<open>The cache in front of the pipeline\<close>

text \<open>
  Modelled from the spec: the decorator \<^verbatim>\<open>st.cache_data(ttl=3600)\<close> on \<^verbatim>\<open>load_data\<close>
  is code of the Streamlit library. Section 4.2 of the specification describes it: a
  mapping from the ticker to the stored result and the time it was computed at; a call
  returns the stored result when the entry is younger than the TTL, and otherwise
  invokes the pipeline, stores its result with the current time and returns it. The
  field \<open>calls\<close> counts the invocations of the pipeline. Time is in seconds.
\<close>

definition TTL :: int where
  "TTL = 3600"

record 'r cache =
  entries :: "string \<rightharpoonup> ('r \<times> int)"
  calls :: nat

definition fresh :: "'r cache \<Rightarrow> int \<Rightarrow> string \<Rightarrow> bool" where
  "fresh c now tkr =
     (case entries c tkr of None \<Rightarrow> False | Some (r, computed_at) \<Rightarrow> now - computed_at < TTL)"

text \<open>
  Modelled from the spec: \<^verbatim>\<open>get_or_fetch\<close> of section 4.2, the behaviour of the
  decorator \<^verbatim>\<open>st.cache_data(ttl=3600)\<close>, whose code is not in the repository.
\<close>

definition get_or_fetch ::
  "(int \<Rightarrow> string \<Rightarrow> 'r) \<Rightarrow> int \<Rightarrow> string \<Rightarrow> 'r cache \<Rightarrow> 'r \<times> 'r cache" where
  "get_or_fetch pipeline now tkr c =
     (case entries c tkr of
        Some (r, computed_at) \<Rightarrow>
          if now - computed_at < TTL then (r, c)
          else
            let r' = pipeline now tkr
            in (r', c\<lparr>entries := (entries c)(tkr \<mapsto> (r', now)), calls := Suc (calls c)\<rparr>)
      | None \<Rightarrow>
          let r' = pipeline now tkr
          in (r', c\<lparr>entries := (entries c)(tkr \<mapsto> (r', now)), calls := Suc (calls c)\<rparr>))"

section \<open>An instance of the library parameters\<close>

text \<open>
  To run the model on concrete inputs the three library parameters need values. The
  instance below agrees with Python on the inputs of the examples: \<^verbatim>\<open>str\<close> of a
  string, of None, of a Boolean, of an int, of NaT and of a timestamp at midnight;
  \<^verbatim>\<open>float\<close> of a string of ASCII digits with an optional sign and of a string
  without any digit; \<^verbatim>\<open>pd.to_datetime\<close> of a date \<^verbatim>\<open>YYYY-MM-DD\<close> of the years 1678 to
  2261, with or without the time \<^verbatim>\<open>00:00:00\<close>, of \<^verbatim>\<open>NaT\<close> and of a string
  without any digit. The general
  theorems hold for every value of the parameters.
\<close>

definition digit_value :: "char \<Rightarrow> nat option" where
  "digit_value c =
     map_of [(CHR ''0'', 0), (CHR ''1'', 1), (CHR ''2'', 2), (CHR ''3'', 3), (CHR ''4'', 4),
             (CHR ''5'', 5), (CHR ''6'', 6), (CHR ''7'', 7), (CHR ''8'', 8), (CHR ''9'', 9)] c"

fun nat_of_digits :: "nat \<Rightarrow> string \<Rightarrow> nat option" where
  "nat_of_digits acc [] = Some acc"
| "nat_of_digits acc (c # cs) =
     (case digit_value c of None \<Rightarrow> None | Some v \<Rightarrow> nat_of_digits (10 * acc + v) cs)"

definition parse_nat :: "string \<Rightarrow> nat option" where
  "parse_nat s = (if s = [] then None else nat_of_digits 0 s)"

fun sample_str :: "pyval \<Rightarrow> string" where
  "sample_str (VStr s) = s"
| "sample_str VNone = ''None''"
| "sample_str (VBool b) = (if b then ''True'' else ''False'')"
| "sample_str (VInt i) = (if i < 0 then ''-'' else []) @ dec_digits (nat \<bar>i\<bar>)"
| "sample_str (VTimestamp y m d) =
     zero_pad 4 y @ ''-'' @ zero_pad 2 m @ ''-'' @ zero_pad 2 d @ '' 00:00:00''"
| "sample_str VNaT = ''NaT''"
| "sample_str (VFloat f) = format_comma0 f"

definition sample_float_of_str :: "string \<Rightarrow> exn + pyfloat" where
  "sample_float_of_str s =
     (let neg = (take 1 s = ''-'');
          body = (if take 1 s = ''-'' \<or> take 1 s = ''+'' then drop 1 s else s)
      in case parse_nat body of
           None \<Rightarrow> Inl ValueError
         | Some n \<Rightarrow>
             (case float_of_int (int n) of
                Inl e \<Rightarrow> Inr (Inf neg)
              | Inr (Finite sg m e) \<Rightarrow> Inr (Finite neg m e)
              | Inr f \<Rightarrow> Inr f))"

definition days_in_month :: "nat \<Rightarrow> nat \<Rightarrow> nat" where
  "days_in_month y m =
     (if m = 2 then (if (y mod 4 = 0 \<and> y mod 100 \<noteq> 0) \<or> y mod 400 = 0 then 29 else 28)
      else if m = 4 \<or> m = 6 \<or> m = 9 \<or> m = 11 then 30 else 31)"

definition sample_to_datetime :: "string \<Rightarrow> exn + pyval" where
  "sample_to_datetime s =
     (if s = ''NaT'' then Inr VNaT
      else if length s = 10 \<or> (length s = 19 \<and> drop 10 s = '' 00:00:00'') then
        (case (parse_nat (take 4 s), parse_nat (take 2 (drop 5 s)), parse_nat (take 2 (drop 8 s))) of
           (Some y, Some m, Some d) \<Rightarrow>
             if s ! 4 = CHR ''-'' \<and> s ! 7 = CHR ''-'' \<and> 1678 \<le> y \<and> y \<le> 2261 \<and> 1 \<le> m \<and> m \<le> 12 \<and> 1 \<le> d \<and> d \<le> days_in_month y m
             then Inr (VTimestamp y m d) else Inl ValueError
         | _ \<Rightarrow> Inl ValueError)
      else Inl ValueError)"

definition sample_lib :: pylib where
  "sample_lib =
     \<lparr>py_str = sample_str, float_of_str = sample_float_of_str, to_datetime = sample_to_datetime\<rparr>"

section \<open>Providers for the examples\<close>

text \<open>A ticker the provider knows nothing about: the lookup fails, the tables are empty or absent.\<close>

definition no_data_provider :: provider where
  "no_data_provider =
     \<lparr>get_info = (\<lambda>t. Inl (ProviderError ''unknown symbol'')),
      history = (\<lambda>t. Inr \<lparr>idx = [], cols = []\<rparr>),
      income_stmt = (\<lambda>t. Inr None),
      balance_sheet = (\<lambda>t. Inr (Some \<lparr>idx = [], cols = []\<rparr>)),
      cashflow = (\<lambda>t. Inr None)\<rparr>"

text \<open>A provider whose price history call raises.\<close>

definition failing_provider :: provider where
  "failing_provider =
     \<lparr>get_info = (\<lambda>t. Inl (ProviderError ''unknown symbol'')),
      history = (\<lambda>t. Inl (ProviderError ''connection reset'')),
      income_stmt = (\<lambda>t. Inr None),
      balance_sheet = (\<lambda>t. Inr None),
      cashflow = (\<lambda>t. Inr None)\<rparr>"

text \<open>
  The scenario of section 8 of the specification: a long name, two days of prices
  (here with an open and a volume column beside the close) and an income statement
  (here with an older period beside the one of 2023-12-31).
\<close>

definition abc_hist :: frame where
  "abc_hist =
     \<lparr>idx = [VTimestamp 2023 1 1, VTimestamp 2023 1 2],
      cols = [(VStr ''Open'', [VFloat (Finite False 19 (- 1)), VFloat (Finite False 21 (- 1))]),
              (VStr ''Close'', [VFloat (Finite False 10 0), VFloat (Finite False 11 0)]),
              (VStr ''Volume'', [VInt 100, VInt 200])]\<rparr>"

definition abc_income :: frame where
  "abc_income =
     \<lparr>idx = [VStr ''Revenue''],
      cols = [(VTimestamp 2023 12 31, [VInt 1000000]),
              (VTimestamp 2022 12 31, [VInt 900000])]\<rparr>"

definition abc_provider :: provider where
  "abc_provider =
     \<lparr>get_info = (\<lambda>t. Inr (Some [(''longName'', VStr ''ABC Corp'')])),
      history = (\<lambda>t. Inr abc_hist),
      income_stmt = (\<lambda>t. Inr (Some abc_income)),
      balance_sheet = (\<lambda>t. Inr None),
      cashflow = (\<lambda>t. Inr (Some \<lparr>idx = [], cols = []\<rparr>))\<rparr>"

definition no_data_result :: fetch_result where
  "no_data_result =
     \<lparr>name = VNone, hist = \<lparr>idx = [], cols = []\<rparr>,
      inc = None, inc_period = VStr ''N/A'',
      bal = None, bal_period = VStr ''N/A'',
      cf = None, cf_period = VStr ''N/A''\<rparr>"

text \<open>A statement table whose first period label no other column carries, or no table.\<close>

definition period_unrepeated :: "frame option \<Rightarrow> bool" where
  "period_unrepeated t =
     (case t of
        None \<Rightarrow> True
      | Some d \<Rightarrow> (case cols d of [] \<Rightarrow> True | c # rest \<Rightarrow> fst c \<notin> fst ` set rest))"

text \<open>No statement data: the table is absent or has no rows.\<close>

definition no_rows :: "frame option \<Rightarrow> bool" where
  "no_rows t = (case t of None \<Rightarrow> True | Some d \<Rightarrow> idx d = [])"

text \<open>No metadata: the lookup raises, or returns None or a dictionary without a name.\<close>

definition no_info :: "exn + (string \<times> pyval) list option \<Rightarrow> bool" where
  "no_info g =
     (case g of
        Inl e \<Rightarrow> True
      | Inr None \<Rightarrow> True
      | Inr (Some d) \<Rightarrow> map_of d ''longName'' = None \<and> map_of d ''shortName'' = None)"

text \<open>A pipeline and a cache to run the cache on: the result records the time of the call.\<close>

definition demo_pipeline :: "int \<Rightarrow> string \<Rightarrow> string \<times> int" where
  "demo_pipeline now tkr = (tkr, now)"

definition empty_cache :: "(string \<times> int) cache" where
  "empty_cache = \<lparr>entries = Map.empty, calls = 0\<rparr>"

text \<open>The income table of the scenario as \<^verbatim>\<open>latest_col\<close> returns it, alone on a heap.\<close>

definition abc_inc_latest :: frame where
  "abc_inc_latest =
     \<lparr>idx = [VInt 0],
      cols = [(VStr ''Item'', [VStr ''Revenue'']), (VStr ''Value'', [VInt 1000000])]\<rparr>"

text \<open>Providers whose income, balance sheet or cash flow property raises.\<close>

definition income_failing_provider :: provider where
  "income_failing_provider =
     \<lparr>get_info = (\<lambda>t. Inr None),
      history = (\<lambda>t. Inr \<lparr>idx = [], cols = []\<rparr>),
      income_stmt = (\<lambda>t. Inl (ProviderError ''timeout'')),
      balance_sheet = (\<lambda>t. Inr None),
      cashflow = (\<lambda>t. Inr None)\<rparr>"

definition balance_failing_provider :: provider where
  "balance_failing_provider =
     \<lparr>get_info = (\<lambda>t. Inr None),
      history = (\<lambda>t. Inr \<lparr>idx = [], cols = []\<rparr>),
      income_stmt = (\<lambda>t. Inr None),
      balance_sheet = (\<lambda>t. Inl (ProviderError ''timeout'')),
      cashflow = (\<lambda>t. Inr None)\<rparr>"

definition cashflow_failing_provider :: provider where
  "cashflow_failing_provider =
     \<lparr>get_info = (\<lambda>t. Inr None),
      history = (\<lambda>t. Inr \<lparr>idx = [], cols = []\<rparr>),
      income_stmt = (\<lambda>t. Inr None),
      balance_sheet = (\<lambda>t. Inr None),
      cashflow = (\<lambda>t. Inl (ProviderError ''timeout''))\<rparr>"

text \<open>A statement table with one row in which a second column repeats the first label.\<close>

definition repeated_period_table :: frame where
  "repeated_period_table =
     \<lparr>idx = [VStr ''Revenue''],
      cols = [(VTimestamp 2023 12 31, [VInt 1000000]),
              (VTimestamp 2023 12 31, [VInt 900000])]\<rparr>"

section \<open>Sequencing and the steps of the pipeline\<close>

lemma bind_exn_Inr_iff: "bind_exn m f = Inr r \<longleftrightarrow> (\<exists>v. m = Inr v \<and> f v = Inr r)"
  by (cases m) (simp_all add: bind_exn_def)

lemma bind_exn_simps [simp]: "bind_exn (Inl e) f = Inl e" "bind_exn (Inr v) f = f v"
  by (simp_all add: bind_exn_def)

lemma latest_col_absent:
  "df = None \<or> (\<exists>d. df = Some d \<and> empty_frame d) \<Longrightarrow> latest_col df = Inr (None, None)"
  by (auto simp: latest_col_def)

lemma latest_col_first:
  assumes "\<not> empty_frame d" and "cols d = (c, vs) # rest" and "c \<notin> fst ` set rest"
  shows "latest_col (Some d) =
           Inr (Some \<lparr>idx = map (\<lambda>i. VInt (int i)) [0..<length (idx d)],
                      cols = [(VStr ''Item'', idx d), (VStr ''Value'', vs)]\<rparr>, Some c)"
proof -
  have "filter (\<lambda>x. fst x = c) rest = []"
    using assms(3) by (auto simp: filter_empty_conv)
  then show ?thesis
    using assms(1,2)
    by (simp add: latest_col_def select_cols_def reset_index_def set_columns_def)
qed

text \<open>A first label that another column repeats: the renaming to two columns raises.\<close>

lemma latest_col_repeated:
  assumes "\<not> empty_frame d" and "cols d = (c, vs) # rest" and "c \<in> fst ` set rest"
  shows "latest_col (Some d) = Inl ValueError"
proof -
  have "filter (\<lambda>x. fst x = c) rest \<noteq> []"
    using assms(3) by (auto simp: filter_empty_conv)
  then show ?thesis
    using assms(1,2)
    by (simp add: latest_col_def select_cols_def reset_index_def set_columns_def)
qed

lemma pretty_period_None: "pretty_period lib None = Inr (VStr ''N/A'')"
  by (simp add: pretty_period_def)

lemma strftime_ymd_cases:
  "(\<exists>s. strftime_ymd t = Inr (VStr s)) \<or> (\<exists>e. strftime_ymd t = Inl e)"
  by (cases t) simp_all

lemma pretty_period_total: "\<exists>s. pretty_period lib col = Inr (VStr s)"
proof (cases col)
  case None
  then show ?thesis by (simp add: pretty_period_def)
next
  case (Some c)
  show ?thesis
  proof (cases "to_datetime lib (py_str lib c)")
    case (Inl e)
    with Some show ?thesis by (simp add: pretty_period_def try_except_def)
  next
    case (Inr t)
    with Some strftime_ymd_cases [of t] show ?thesis
      by (auto simp: pretty_period_def try_except_def)
  qed
qed

lemma load_data_Inr:
  assumes "load_data lib prov tkr = Inr r"
  shows "\<exists>h ia ba ca il ic bl bc cl cc ip bp cp.
           load_hist prov tkr = Inr h \<and> income_stmt prov tkr = Inr ia
         \<and> balance_sheet prov tkr = Inr ba \<and> cashflow prov tkr = Inr ca
         \<and> latest_col ia = Inr (il, ic) \<and> latest_col ba = Inr (bl, bc)
         \<and> latest_col ca = Inr (cl, cc)
         \<and> pretty_period lib ic = Inr ip \<and> pretty_period lib bc = Inr bp
         \<and> pretty_period lib cc = Inr cp
         \<and> r = \<lparr>name = load_name prov tkr, hist = h, inc = il, inc_period = ip,
                 bal = bl, bal_period = bp, cf = cl, cf_period = cp\<rparr>"
  using assms
  by (simp add: load_data_def bind_exn_Inr_iff split: prod.splits) blast

lemma load_data_intro:
  assumes "load_hist prov tkr = Inr h" "income_stmt prov tkr = Inr ia"
    "balance_sheet prov tkr = Inr ba" "cashflow prov tkr = Inr ca"
    "latest_col ia = Inr (il, ic)" "latest_col ba = Inr (bl, bc)" "latest_col ca = Inr (cl, cc)"
    "pretty_period lib ic = Inr ip" "pretty_period lib bc = Inr bp" "pretty_period lib cc = Inr cp"
  shows "load_data lib prov tkr =
     Inr \<lparr>name = load_name prov tkr, hist = h, inc = il, inc_period = ip,
          bal = bl, bal_period = bp, cf = cl, cf_period = cp\<rparr>"
  using assms by (simp add: load_data_def)

lemma select_close:
  "VStr ''Close'' \<in> fst ` set (cols h) \<Longrightarrow>
   select_cols [VStr ''Close''] h = Inr (h\<lparr>cols := filter (\<lambda>c. fst c = VStr ''Close'') (cols h)\<rparr>)"
  by (simp add: select_cols_def)

lemma select_close_missing:
  "VStr ''Close'' \<notin> fst ` set (cols h) \<Longrightarrow> select_cols [VStr ''Close''] h = Inl KeyError"
  by (simp add: select_cols_def)

lemma load_hist_cases:
  assumes "history prov tkr = Inr h"
  shows "load_hist prov tkr =
           (if idx h = [] \<or> cols h = [] then Inr h
            else if VStr ''Close'' \<in> fst ` set (cols h)
            then Inr (h\<lparr>cols := filter (\<lambda>c. fst c = VStr ''Close'') (cols h)\<rparr>)
            else Inl KeyError)"
  using assms by (simp add: load_hist_def empty_frame_def select_close select_close_missing)

lemma load_name_no_info: "no_info (get_info prov tkr) \<Longrightarrow> load_name prov tkr = VNone"
  by (auto simp: no_info_def load_name_def dict_get_def py_or_def split: sum.splits option.splits)

lemma load_name_failure: "get_info prov tkr = Inl e \<Longrightarrow> load_name prov tkr = VNone"
  by (simp add: load_name_def)

lemma latest_col_unrepeated:
  "period_unrepeated t \<Longrightarrow> \<exists>l c. latest_col t = Inr (l, c)"
proof (cases t)
  case None
  then show ?thesis by (simp add: latest_col_def)
next
  case (Some d)
  assume u: "period_unrepeated t"
  show ?thesis
  proof (cases "empty_frame d")
    case True
    with Some show ?thesis by (simp add: latest_col_def)
  next
    case False
    then obtain c vs rest where c: "cols d = (c, vs) # rest"
      by (cases "cols d") (auto simp: empty_frame_def)
    with u Some have "c \<notin> fst ` set rest"
      by (simp add: period_unrepeated_def)
    from latest_col_first [OF False c this] Some show ?thesis by simp
  qed
qed

lemma latest_col_no_rows: "no_rows t \<Longrightarrow> latest_col t = Inr (None, None)"
  by (rule latest_col_absent) (auto simp: no_rows_def empty_frame_def split: option.splits)

text \<open>When every unguarded call returns and no rename fails, the pipeline returns.\<close>

lemma load_data_returns:
  assumes "load_hist prov tkr = Inr h'"
    and "income_stmt prov tkr = Inr ia" "balance_sheet prov tkr = Inr ba"
      "cashflow prov tkr = Inr ca"
    and "period_unrepeated ia" "period_unrepeated ba" "period_unrepeated ca"
  shows "\<exists>r. load_data lib prov tkr = Inr r \<and> hist r = h' \<and> name r = load_name prov tkr"
proof -
  from assms(5-7) obtain il ic bl bc cl cc where
    l: "latest_col ia = Inr (il, ic)" "latest_col ba = Inr (bl, bc)" "latest_col ca = Inr (cl, cc)"
    using latest_col_unrepeated [of ia] latest_col_unrepeated [of ba] latest_col_unrepeated [of ca]
    by blast
  obtain ip bp cp where
    p: "pretty_period lib ic = Inr (VStr ip)" "pretty_period lib bc = Inr (VStr bp)"
      "pretty_period lib cc = Inr (VStr cp)"
    using pretty_period_total [of lib ic] pretty_period_total [of lib bc]
      pretty_period_total [of lib cc] by blast
  from load_data_intro [OF assms(1-4) l p] show ?thesis
    by simp
qed

text \<open>The four unguarded calls: the exception of the first that raises leaves the pipeline.\<close>

lemma load_data_history_raises:
  "history prov tkr = Inl e \<Longrightarrow> load_data lib prov tkr = Inl e"
  by (simp add: load_data_def load_hist_def)

lemma load_data_income_raises:
  "load_hist prov tkr = Inr h' \<Longrightarrow> income_stmt prov tkr = Inl e \<Longrightarrow>
   load_data lib prov tkr = Inl e"
  by (simp add: load_data_def)

lemma load_data_balance_raises:
  "load_hist prov tkr = Inr h' \<Longrightarrow> income_stmt prov tkr = Inr ia \<Longrightarrow>
   balance_sheet prov tkr = Inl e \<Longrightarrow> load_data lib prov tkr = Inl e"
  by (simp add: load_data_def)

lemma load_data_cashflow_raises:
  "load_hist prov tkr = Inr h' \<Longrightarrow> income_stmt prov tkr = Inr ia \<Longrightarrow>
   balance_sheet prov tkr = Inr ba \<Longrightarrow> cashflow prov tkr = Inl e \<Longrightarrow>
   load_data lib prov tkr = Inl e"
  by (simp add: load_data_def)

lemma load_hist_returns:
  assumes "history prov tkr = Inr h"
    and "idx h = [] \<or> cols h = [] \<or> VStr ''Close'' \<in> fst ` set (cols h)"
  shows "\<exists>h'. load_hist prov tkr = Inr h'"
  using load_hist_cases [OF assms(1)] assms(2)
  by (cases "idx h = [] \<or> cols h = []") simp_all

lemma load_no_data: "load_data sample_lib no_data_provider tkr = Inr no_data_result"
  by (simp add: load_data_def no_data_provider_def no_data_result_def load_name_def
      load_hist_def empty_frame_def latest_col_def pretty_period_def)

section \<open>Statement snapshots\<close>

text \<open>
  Claim C3, amended. For a statement table with at least one row and one column whose
  first period label is the label of no other column, \<^verbatim>\<open>latest_col\<close> returns the table
  of the pairs of line item and value of the first column alone: it has as many rows as
  the input, the column Item holds the row labels of the input in their order and the
  column Value holds the cells of the first column, so the rows of the snapshot are the
  row labels paired with the first column. It also returns the label of that column.
  For a table with rows in which another column repeats the first label, the selection
  by label returns more than one column and \<^verbatim>\<open>latest_col\<close> raises ValueError.
\<close>

theorem latest_col_first_column:
  assumes "idx d \<noteq> []" and "cols d = (c, vs) # rest"
  shows "(c \<notin> fst ` set rest \<longrightarrow>
           (\<exists>out. latest_col (Some d) = Inr (Some out, Some c)
              \<and> idx out = map (\<lambda>i. VInt (int i)) [0..<length (idx d)]
              \<and> length (idx out) = length (idx d)
              \<and> cols out = [(VStr ''Item'', idx d), (VStr ''Value'', vs)]
              \<and> (length vs = length (idx d) \<longrightarrow>
                   snapshot_rows (Some out) = zip (idx d) vs
                 \<and> length (snapshot_rows (Some out)) = length (idx d)
                 \<and> map fst (snapshot_rows (Some out)) = idx d
                 \<and> map snd (snapshot_rows (Some out)) = vs)))
       \<and> (c \<in> fst ` set rest \<longrightarrow> latest_col (Some d) = Inl ValueError)"
proof -
  have ne: "\<not> empty_frame d"
    using assms by (simp add: empty_frame_def)
  have a: "\<exists>out. latest_col (Some d) = Inr (Some out, Some c)
              \<and> idx out = map (\<lambda>i. VInt (int i)) [0..<length (idx d)]
              \<and> length (idx out) = length (idx d)
              \<and> cols out = [(VStr ''Item'', idx d), (VStr ''Value'', vs)]
              \<and> (length vs = length (idx d) \<longrightarrow>
                   snapshot_rows (Some out) = zip (idx d) vs
                 \<and> length (snapshot_rows (Some out)) = length (idx d)
                 \<and> map fst (snapshot_rows (Some out)) = idx d
                 \<and> map snd (snapshot_rows (Some out)) = vs)"
    if u: "c \<notin> fst ` set rest"
    using assms(1) latest_col_first [OF ne assms(2) u]
    by (simp add: snapshot_rows_def empty_frame_def column_def)
  have b: "latest_col (Some d) = Inl ValueError" if "c \<in> fst ` set rest"
    using ne assms(2) that by (rule latest_col_repeated)
  from a b show ?thesis by blast
qed

theorem latest_col_first_column_witness:
  "latest_col (Some abc_income) =
     Inr (Some \<lparr>idx = [VInt 0],
                cols = [(VStr ''Item'', [VStr ''Revenue'']), (VStr ''Value'', [VInt 1000000])]\<rparr>,
          Some (VTimestamp 2023 12 31))
   \<and> VTimestamp 2023 12 31 \<in> fst ` set [(VTimestamp 2023 12 31, [VInt 900000])]
   \<and> latest_col (Some repeated_period_table) = Inl ValueError"
  using latest_col_first_column [of abc_income "VTimestamp 2023 12 31" "[VInt 1000000]"
      "[(VTimestamp 2022 12 31, [VInt 900000])]"]
    latest_col_first_column [of repeated_period_table "VTimestamp 2023 12 31" "[VInt 1000000]"
      "[(VTimestamp 2023 12 31, [VInt 900000])]"]
  by (auto simp: abc_income_def repeated_period_table_def upt_rec)

text \<open>
  Claim C3 as stated fails on a table with rows whose first label is repeated: no
  snapshot is produced.
\<close>

theorem repeated_period_counterexample:
  "idx repeated_period_table \<noteq> [] \<and> cols repeated_period_table \<noteq> []
   \<and> latest_col (Some repeated_period_table) = Inl ValueError"
  by (simp add: repeated_period_table_def latest_col_def empty_frame_def select_cols_def
      reset_index_def set_columns_def)

text \<open>
  Claim C4. For a statement table that is absent or has no rows, \<^verbatim>\<open>latest_col\<close>
  returns no table and no column, and \<^verbatim>\<open>pretty_period\<close> turns the missing column
  into the label \<^verbatim>\<open>N/A\<close>: in every result of \<^verbatim>\<open>load_data\<close> the snapshot of such a
  statement has no rows and the period \<^verbatim>\<open>N/A\<close>. In every result of \<^verbatim>\<open>load_data\<close>
  the three period labels are strings: no caller receives a missing period.
\<close>

theorem absent_statement_period:
  assumes "df = None \<or> (\<exists>d. df = Some d \<and> idx d = [])"
  shows "latest_col df = Inr (None, None)
       \<and> pretty_period lib None = Inr (VStr ''N/A'')
       \<and> snapshot_rows None = []
       \<and> (\<forall>r. load_data lib prov tkr = Inr r \<longrightarrow>
            (income_stmt prov tkr = Inr df \<longrightarrow> inc r = None \<and> inc_period r = VStr ''N/A'')
          \<and> (balance_sheet prov tkr = Inr df \<longrightarrow> bal r = None \<and> bal_period r = VStr ''N/A'')
          \<and> (cashflow prov tkr = Inr df \<longrightarrow> cf r = None \<and> cf_period r = VStr ''N/A'')
          \<and> (\<exists>s1 s2 s3. inc_period r = VStr s1 \<and> bal_period r = VStr s2 \<and> cf_period r = VStr s3))"
proof -
  have a: "latest_col df = Inr (None, None)"
    using assms by (intro latest_col_absent) (auto simp: empty_frame_def)
  have b: "(income_stmt prov tkr = Inr df \<longrightarrow> inc r = None \<and> inc_period r = VStr ''N/A'')
          \<and> (balance_sheet prov tkr = Inr df \<longrightarrow> bal r = None \<and> bal_period r = VStr ''N/A'')
          \<and> (cashflow prov tkr = Inr df \<longrightarrow> cf r = None \<and> cf_period r = VStr ''N/A'')
          \<and> (\<exists>s1 s2 s3. inc_period r = VStr s1 \<and> bal_period r = VStr s2 \<and> cf_period r = VStr s3)"
    if r: "load_data lib prov tkr = Inr r" for r
  proof -
    from load_data_Inr [OF r] obtain h ia ba ca il ic bl bc cl cc ip bp cp where
      s: "income_stmt prov tkr = Inr ia" "balance_sheet prov tkr = Inr ba"
        "cashflow prov tkr = Inr ca"
      and l: "latest_col ia = Inr (il, ic)" "latest_col ba = Inr (bl, bc)"
        "latest_col ca = Inr (cl, cc)"
      and p: "pretty_period lib ic = Inr ip" "pretty_period lib bc = Inr bp"
        "pretty_period lib cc = Inr cp"
      and req: "r = \<lparr>name = load_name prov tkr, hist = h, inc = il, inc_period = ip,
                 bal = bl, bal_period = bp, cf = cl, cf_period = cp\<rparr>"
      by blast
    have i: "income_stmt prov tkr = Inr df \<longrightarrow> inc r = None \<and> inc_period r = VStr ''N/A''"
      using s(1) l(1) p(1) a req by (auto simp: pretty_period_None)
    have b: "balance_sheet prov tkr = Inr df \<longrightarrow> bal r = None \<and> bal_period r = VStr ''N/A''"
      using s(2) l(2) p(2) a req by (auto simp: pretty_period_None)
    have c: "cashflow prov tkr = Inr df \<longrightarrow> cf r = None \<and> cf_period r = VStr ''N/A''"
      using s(3) l(3) p(3) a req by (auto simp: pretty_period_None)
    have e: "\<exists>s1 s2 s3. inc_period r = VStr s1 \<and> bal_period r = VStr s2 \<and> cf_period r = VStr s3"
      using p req pretty_period_total [of lib ic] pretty_period_total [of lib bc]
        pretty_period_total [of lib cc] by auto
    from i b c e show ?thesis by blast
  qed
  from a b show ?thesis
    by (simp add: pretty_period_None snapshot_rows_def)
qed

theorem absent_statement_period_witness:
  "income_stmt no_data_provider ''ZZZZ'' = Inr None
   \<and> load_data sample_lib no_data_provider ''ZZZZ'' = Inr no_data_result
   \<and> inc no_data_result = None
   \<and> inc_period no_data_result = VStr ''N/A''"
proof -
  have h: "(None :: frame option) = None \<or> (\<exists>d. None = Some d \<and> idx d = [])"
    by simp
  have i: "income_stmt no_data_provider ''ZZZZ'' = Inr None"
    by (simp add: no_data_provider_def)
  from absent_statement_period [OF h, of sample_lib no_data_provider "''ZZZZ''"] i load_no_data
  show ?thesis by blast
qed

section \<open>Period labels\<close>

lemma dec_digits_length: "0 < k \<Longrightarrow> n < 10 ^ k \<Longrightarrow> length (dec_digits n) \<le> k"
proof (induction n arbitrary: k rule: dec_digits.induct)
  case (1 n)
  show ?case
  proof (cases "n < 10")
    case True
    then show ?thesis using "1.prems" by (simp add: dec_digits.simps [of n])
  next
    case False
    then obtain j where k: "k = Suc j" and j: "0 < j"
      using "1.prems" by (cases k; cases "k - 1") auto
    have "n div 10 < 10 ^ j"
      using "1.prems"(2) k by (simp add: less_mult_imp_div_less mult.commute)
    from "1.IH" [OF False j this] False k show ?thesis
      by (simp add: dec_digits.simps [of n])
  qed
qed

lemma digit_char_digit: "d < 10 \<Longrightarrow> digit_char d \<in> set ''0123456789''"
  unfolding digit_char_def by (rule nth_mem) simp

lemma dec_digits_set: "set (dec_digits n) \<subseteq> set ''0123456789''"
proof (induction n rule: dec_digits.induct)
  case (1 n)
  show ?case
  proof (cases "n < 10")
    case True
    then show ?thesis using digit_char_digit [of n] by (simp add: dec_digits.simps [of n])
  next
    case False
    have "n mod 10 < 10" by simp
    from "1.IH" [OF False] digit_char_digit [OF this] False show ?thesis
      by (simp add: dec_digits.simps [of n])
  qed
qed

lemma zero_pad_length: "0 < w \<Longrightarrow> n < 10 ^ w \<Longrightarrow> length (zero_pad w n) = w"
  using dec_digits_length [of w n] by (simp add: zero_pad_def)

lemma zero_pad_set: "set (zero_pad w n) \<subseteq> set ''0123456789''"
  using dec_digits_set [of n] by (auto simp: zero_pad_def)

text \<open>
  Claim C5. For a column label, \<^verbatim>\<open>pretty_period\<close> never raises and returns a string.
  When \<^verbatim>\<open>pd.to_datetime\<close> reads the string form of the label as a date, the result
  is year, month and day, zero-padded and joined by hyphens: for a year of at most four
  digits that is four digits, two digits and two digits. When \<^verbatim>\<open>pd.to_datetime\<close>
  raises, or returns NaT so that \<^verbatim>\<open>strftime\<close> raises, the result is the string form
  of the label itself.
\<close>

theorem pretty_period_cases:
  "(\<exists>s. pretty_period lib (Some c) = Inr (VStr s))
   \<and> (\<forall>y m d. to_datetime lib (py_str lib c) = Inr (VTimestamp y m d) \<longrightarrow>
        pretty_period lib (Some c) =
          Inr (VStr (zero_pad 4 y @ ''-'' @ zero_pad 2 m @ ''-'' @ zero_pad 2 d))
      \<and> (y < 10000 \<and> m < 100 \<and> d < 100 \<longrightarrow>
           length (zero_pad 4 y) = 4 \<and> length (zero_pad 2 m) = 2 \<and> length (zero_pad 2 d) = 2
         \<and> set (zero_pad 4 y @ zero_pad 2 m @ zero_pad 2 d) \<subseteq> set ''0123456789''))
   \<and> (\<forall>e. to_datetime lib (py_str lib c) = Inl e \<longrightarrow>
        pretty_period lib (Some c) = Inr (VStr (py_str lib c)))
   \<and> (to_datetime lib (py_str lib c) = Inr VNaT \<longrightarrow>
        pretty_period lib (Some c) = Inr (VStr (py_str lib c)))"
proof -
  have a: "\<exists>s. pretty_period lib (Some c) = Inr (VStr s)"
    by (rule pretty_period_total)
  have b: "pretty_period lib (Some c) =
          Inr (VStr (zero_pad 4 y @ ''-'' @ zero_pad 2 m @ ''-'' @ zero_pad 2 d))"
    if "to_datetime lib (py_str lib c) = Inr (VTimestamp y m d)" for y m d
    using that by (simp add: pretty_period_def try_except_def)
  have s: "length (zero_pad 4 y) = 4 \<and> length (zero_pad 2 m) = 2 \<and> length (zero_pad 2 d) = 2
         \<and> set (zero_pad 4 y @ zero_pad 2 m @ zero_pad 2 d) \<subseteq> set ''0123456789''"
    if "y < 10000 \<and> m < 100 \<and> d < 100" for y m d :: nat
    using that zero_pad_length [of 4 y] zero_pad_length [of 2 m] zero_pad_length [of 2 d]
      zero_pad_set [of 4 y] zero_pad_set [of 2 m] zero_pad_set [of 2 d]
    by simp
  have c: "pretty_period lib (Some c) = Inr (VStr (py_str lib c))"
    if "to_datetime lib (py_str lib c) = Inl e" for e
    using that by (simp add: pretty_period_def try_except_def)
  have d: "pretty_period lib (Some c) = Inr (VStr (py_str lib c))"
    if "to_datetime lib (py_str lib c) = Inr VNaT"
    using that by (simp add: pretty_period_def try_except_def)
  from a b s c d show ?thesis by blast
qed

lemma sample_parse_date: "to_datetime sample_lib (py_str sample_lib (VTimestamp 2023 12 31)) = Inr (VTimestamp 2023 12 31)"
  by (simp add: sample_lib_def sample_to_datetime_def parse_nat_def digit_value_def
      zero_pad_def dec_digits.simps digit_char_def days_in_month_def)

lemma sample_parse_text: "to_datetime sample_lib (py_str sample_lib (VStr ''FY2023'')) = Inl ValueError"
  by (simp add: sample_lib_def sample_to_datetime_def)

theorem pretty_period_cases_witness:
  "to_datetime sample_lib (py_str sample_lib (VTimestamp 2023 12 31)) = Inr (VTimestamp 2023 12 31)
   \<and> pretty_period sample_lib (Some (VTimestamp 2023 12 31)) = Inr (VStr ''2023-12-31'')
   \<and> to_datetime sample_lib (py_str sample_lib (VStr ''FY2023'')) = Inl ValueError
   \<and> pretty_period sample_lib (Some (VStr ''FY2023'')) = Inr (VStr ''FY2023'')
   \<and> to_datetime sample_lib (py_str sample_lib VNaT) = Inr VNaT
   \<and> pretty_period sample_lib (Some VNaT) = Inr (VStr ''NaT'')"
proof -
  have z: "zero_pad 4 2023 @ ''-'' @ zero_pad 2 12 @ ''-'' @ zero_pad 2 31 = ''2023-12-31''"
    by (simp add: zero_pad_def dec_digits.simps digit_char_def)
  have n: "to_datetime sample_lib (py_str sample_lib VNaT) = Inr VNaT"
    "py_str sample_lib VNaT = ''NaT''" "py_str sample_lib (VStr ''FY2023'') = ''FY2023''"
    by (simp_all add: sample_lib_def sample_to_datetime_def)
  from pretty_period_cases [of sample_lib "VTimestamp 2023 12 31"]
    pretty_period_cases [of sample_lib "VStr ''FY2023''"]
    pretty_period_cases [of sample_lib VNaT]
    sample_parse_date sample_parse_text z n
  show ?thesis by (metis (no_types))
qed

section \<open>The cell formatter on the values of the specification\<close>

text \<open>
  Claim C6. The value formatter maps the number 1234567, as an int and as a float, to
  the string \<^verbatim>\<open>1,234,567\<close>; it maps the missing values None, NaN and NaT to the empty
  string; and a string that \<^verbatim>\<open>float\<close> rejects, such as a currency code, comes back
  unchanged.
\<close>

theorem format_value_examples:
  "fmt lib (VInt 1234567) = VStr ''1,234,567''
   \<and> fmt lib (VFloat (Finite False 1234567 0)) = VStr ''1,234,567''
   \<and> fmt lib VNone = VStr ''''
   \<and> fmt lib (VFloat NaN) = VStr ''''
   \<and> fmt lib VNaT = VStr ''''
   \<and> (\<forall>s e. float_of_str lib s = Inl e \<longrightarrow> fmt lib (VStr s) = VStr s)"
  by (simp add: fmt_def try_except_def float_of_int_def round_half_even_def
      dec_digits.simps group3.simps digit_char_def)

theorem format_value_examples_witness:
  "float_of_str sample_lib ''USD'' = Inl ValueError
   \<and> fmt sample_lib (VStr ''USD'') = VStr ''USD''"
proof -
  have h: "float_of_str sample_lib ''USD'' = Inl ValueError"
    by (simp add: sample_lib_def sample_float_of_str_def parse_nat_def digit_value_def)
  from format_value_examples [of sample_lib] h show ?thesis
    by blast
qed

section \<open>Price history\<close>

text \<open>
  Claim C8. When the price history call returns a table without rows, the pipeline step
  returns that table and raises nothing; when it returns a table with rows and a close
  column, the step returns the same rows with the columns labelled Close alone. In
  every result of \<^verbatim>\<open>load_data\<close> the price series has the rows of the provider table
  and, when there are rows, no column but the ones labelled Close. And there is such a
  result: when the statement properties return tables that repeat no first label,
  \<^verbatim>\<open>load_data\<close> returns, with the empty provider table as its price series in the
  first case and with the close columns alone in the second.
\<close>

theorem price_history_close_only:
  assumes "history prov tkr = Inr h"
  shows "(idx h = [] \<longrightarrow> load_hist prov tkr = Inr h)
       \<and> (idx h \<noteq> [] \<and> VStr ''Close'' \<in> fst ` set (cols h) \<longrightarrow>
            load_hist prov tkr = Inr (h\<lparr>cols := filter (\<lambda>c. fst c = VStr ''Close'') (cols h)\<rparr>))
       \<and> (\<forall>r. load_data lib prov tkr = Inr r \<longrightarrow>
            idx (hist r) = idx h
          \<and> (idx h = [] \<longrightarrow> hist r = h)
          \<and> (idx h \<noteq> [] \<longrightarrow> cols (hist r) = filter (\<lambda>c. fst c = VStr ''Close'') (cols h)))
       \<and> (income_stmt prov tkr = Inr ia \<and> balance_sheet prov tkr = Inr ba
            \<and> cashflow prov tkr = Inr ca
            \<and> period_unrepeated ia \<and> period_unrepeated ba \<and> period_unrepeated ca \<longrightarrow>
            (idx h = [] \<longrightarrow> (\<exists>r. load_data lib prov tkr = Inr r \<and> hist r = h))
          \<and> (idx h \<noteq> [] \<and> VStr ''Close'' \<in> fst ` set (cols h) \<longrightarrow>
               (\<exists>r. load_data lib prov tkr = Inr r
                  \<and> hist r = h\<lparr>cols := filter (\<lambda>c. fst c = VStr ''Close'') (cols h)\<rparr>)))"
proof -
  note lh = load_hist_cases [OF assms]
  have a: "idx h = [] \<longrightarrow> load_hist prov tkr = Inr h"
    using lh by simp
  have b: "idx h \<noteq> [] \<and> VStr ''Close'' \<in> fst ` set (cols h) \<longrightarrow>
            load_hist prov tkr = Inr (h\<lparr>cols := filter (\<lambda>c. fst c = VStr ''Close'') (cols h)\<rparr>)"
    using lh by auto
  have c: "idx (hist r) = idx h
          \<and> (idx h = [] \<longrightarrow> hist r = h)
          \<and> (idx h \<noteq> [] \<longrightarrow> cols (hist r) = filter (\<lambda>c. fst c = VStr ''Close'') (cols h))"
    if r: "load_data lib prov tkr = Inr r" for r
  proof -
    from load_data_Inr [OF r] have h': "load_hist prov tkr = Inr (hist r)"
      by auto
    show ?thesis
    proof (cases "idx h = [] \<or> cols h = []")
      case True
      with lh h' have "hist r = h" by simp
      with True show ?thesis by auto
    next
      case False
      with lh h' have "hist r = h\<lparr>cols := filter (\<lambda>c. fst c = VStr ''Close'') (cols h)\<rparr>"
        by (simp split: if_splits)
      with False show ?thesis by simp
    qed
  qed
  have d: "(idx h = [] \<longrightarrow> (\<exists>r. load_data lib prov tkr = Inr r \<and> hist r = h))
          \<and> (idx h \<noteq> [] \<and> VStr ''Close'' \<in> fst ` set (cols h) \<longrightarrow>
               (\<exists>r. load_data lib prov tkr = Inr r
                  \<and> hist r = h\<lparr>cols := filter (\<lambda>c. fst c = VStr ''Close'') (cols h)\<rparr>))"
    if s: "income_stmt prov tkr = Inr ia \<and> balance_sheet prov tkr = Inr ba
            \<and> cashflow prov tkr = Inr ca
            \<and> period_unrepeated ia \<and> period_unrepeated ba \<and> period_unrepeated ca"
  proof -
    from s have s': "income_stmt prov tkr = Inr ia" "balance_sheet prov tkr = Inr ba"
      "cashflow prov tkr = Inr ca" "period_unrepeated ia" "period_unrepeated ba"
      "period_unrepeated ca" by simp_all
    have 1: "\<exists>r. load_data lib prov tkr = Inr r \<and> hist r = h" if e: "idx h = []"
    proof -
      from a e have "load_hist prov tkr = Inr h" by simp
      from load_data_returns [OF this s', of lib] show ?thesis by blast
    qed
    have 2: "\<exists>r. load_data lib prov tkr = Inr r
                  \<and> hist r = h\<lparr>cols := filter (\<lambda>c. fst c = VStr ''Close'') (cols h)\<rparr>"
      if e: "idx h \<noteq> [] \<and> VStr ''Close'' \<in> fst ` set (cols h)"
    proof -
      from b e have "load_hist prov tkr =
          Inr (h\<lparr>cols := filter (\<lambda>c. fst c = VStr ''Close'') (cols h)\<rparr>)" by simp
      from load_data_returns [OF this s', of lib] show ?thesis by blast
    qed
    from 1 2 show ?thesis by blast
  qed
  from a b c d show ?thesis by blast
qed

lemma load_abc:
  "load_data sample_lib abc_provider ''ABC.X'' =
     Inr \<lparr>name = VStr ''ABC Corp'',
          hist = \<lparr>idx = [VTimestamp 2023 1 1, VTimestamp 2023 1 2],
                  cols = [(VStr ''Close'', [VFloat (Finite False 10 0), VFloat (Finite False 11 0)])]\<rparr>,
          inc = Some \<lparr>idx = [VInt 0],
                      cols = [(VStr ''Item'', [VStr ''Revenue'']), (VStr ''Value'', [VInt 1000000])]\<rparr>,
          inc_period = VStr ''2023-12-31'',
          bal = None, bal_period = VStr ''N/A'',
          cf = None, cf_period = VStr ''N/A''\<rparr>"
  by (simp add: load_data_def abc_provider_def abc_hist_def abc_income_def load_name_def
      load_hist_def empty_frame_def latest_col_def pretty_period_def select_cols_def
      reset_index_def set_columns_def dict_get_def py_or_def try_except_def upt_rec
      sample_lib_def sample_to_datetime_def parse_nat_def digit_value_def
      zero_pad_def dec_digits.simps digit_char_def days_in_month_def)

theorem price_history_close_only_witness:
  "history abc_provider ''ABC.X'' = Inr abc_hist
   \<and> idx abc_hist \<noteq> [] \<and> VStr ''Close'' \<in> fst ` set (cols abc_hist)
   \<and> load_data sample_lib abc_provider ''ABC.X'' =
       Inr \<lparr>name = VStr ''ABC Corp'',
            hist = \<lparr>idx = [VTimestamp 2023 1 1, VTimestamp 2023 1 2],
                    cols = [(VStr ''Close'', [VFloat (Finite False 10 0), VFloat (Finite False 11 0)])]\<rparr>,
            inc = Some \<lparr>idx = [VInt 0],
                        cols = [(VStr ''Item'', [VStr ''Revenue'']), (VStr ''Value'', [VInt 1000000])]\<rparr>,
            inc_period = VStr ''2023-12-31'',
            bal = None, bal_period = VStr ''N/A'',
            cf = None, cf_period = VStr ''N/A''\<rparr>
   \<and> load_hist abc_provider ''ABC.X'' =
       Inr \<lparr>idx = [VTimestamp 2023 1 1, VTimestamp 2023 1 2],
            cols = [(VStr ''Close'', [VFloat (Finite False 10 0), VFloat (Finite False 11 0)])]\<rparr>
   \<and> history no_data_provider ''ZZZZ'' = Inr \<lparr>idx = [], cols = []\<rparr>
   \<and> load_data sample_lib no_data_provider ''ZZZZ'' = Inr no_data_result
   \<and> hist no_data_result = \<lparr>idx = [], cols = []\<rparr>"
proof -
  have h: "history abc_provider ''ABC.X'' = Inr abc_hist"
    by (simp add: abc_provider_def)
  have n: "history no_data_provider ''ZZZZ'' = Inr \<lparr>idx = [], cols = []\<rparr>"
    by (simp add: no_data_provider_def)
  from price_history_close_only [OF h, of sample_lib "Some abc_income" None
      "Some \<lparr>idx = [], cols = []\<rparr>"]
    price_history_close_only [OF n, of sample_lib None "Some \<lparr>idx = [], cols = []\<rparr>" None]
    load_abc load_no_data [of "''ZZZZ''"]
  show ?thesis
    by (simp add: abc_hist_def h n no_data_result_def)
qed

section \<open>The pipeline as a whole\<close>

text \<open>
  Claim C1, amended. Only the metadata lookup runs inside a \<^verbatim>\<open>try\<close>: when it
  raises, the name is None and the pipeline goes on. When the price history call and
  the three statement properties return, the returned price table is empty or has a
  close column, and the first period label of each statement table is carried by no
  other column, \<^verbatim>\<open>load_data\<close> returns a result. For a ticker without any provider
  data (no metadata name, a price table without rows, statements absent or without
  rows) the result has the name None, the empty price table, no statement table and
  the period label \<^verbatim>\<open>N/A\<close> three times. An exception of the price history call is
  not caught: it leaves \<^verbatim>\<open>load_data\<close>. Nor is an exception of a statement property:
  when the calls before it have returned, it leaves \<^verbatim>\<open>load_data\<close>.
\<close>

theorem load_data_degrades:
  "(history prov tkr = Inr h
      \<and> (idx h = [] \<or> cols h = [] \<or> VStr ''Close'' \<in> fst ` set (cols h))
      \<and> income_stmt prov tkr = Inr ia \<and> balance_sheet prov tkr = Inr ba
      \<and> cashflow prov tkr = Inr ca
      \<and> period_unrepeated ia \<and> period_unrepeated ba \<and> period_unrepeated ca
    \<longrightarrow> (\<exists>r. load_data lib prov tkr = Inr r \<and> name r = load_name prov tkr)
       \<and> ((\<exists>e. get_info prov tkr = Inl e) \<longrightarrow> load_name prov tkr = VNone))
   \<and> (no_info (get_info prov tkr)
      \<and> history prov tkr = Inr h \<and> idx h = []
      \<and> income_stmt prov tkr = Inr ia \<and> balance_sheet prov tkr = Inr ba
      \<and> cashflow prov tkr = Inr ca
      \<and> no_rows ia \<and> no_rows ba \<and> no_rows ca
    \<longrightarrow> load_data lib prov tkr =
          Inr \<lparr>name = VNone, hist = h,
               inc = None, inc_period = VStr ''N/A'',
               bal = None, bal_period = VStr ''N/A'',
               cf = None, cf_period = VStr ''N/A''\<rparr>)
   \<and> (\<forall>e. history prov tkr = Inl e \<longrightarrow> load_data lib prov tkr = Inl e)
   \<and> (\<forall>e. history prov tkr = Inr h
          \<and> (idx h = [] \<or> cols h = [] \<or> VStr ''Close'' \<in> fst ` set (cols h))
          \<and> income_stmt prov tkr = Inl e
        \<longrightarrow> load_data lib prov tkr = Inl e)
   \<and> (\<forall>e. history prov tkr = Inr h
          \<and> (idx h = [] \<or> cols h = [] \<or> VStr ''Close'' \<in> fst ` set (cols h))
          \<and> income_stmt prov tkr = Inr ia \<and> balance_sheet prov tkr = Inl e
        \<longrightarrow> load_data lib prov tkr = Inl e)
   \<and> (\<forall>e. history prov tkr = Inr h
          \<and> (idx h = [] \<or> cols h = [] \<or> VStr ''Close'' \<in> fst ` set (cols h))
          \<and> income_stmt prov tkr = Inr ia \<and> balance_sheet prov tkr = Inr ba
          \<and> cashflow prov tkr = Inl e
        \<longrightarrow> load_data lib prov tkr = Inl e)"
proof -
  have A: "(\<exists>r. load_data lib prov tkr = Inr r \<and> name r = load_name prov tkr)
       \<and> ((\<exists>e. get_info prov tkr = Inl e) \<longrightarrow> load_name prov tkr = VNone)"
    if a: "history prov tkr = Inr h
      \<and> (idx h = [] \<or> cols h = [] \<or> VStr ''Close'' \<in> fst ` set (cols h))
      \<and> income_stmt prov tkr = Inr ia \<and> balance_sheet prov tkr = Inr ba
      \<and> cashflow prov tkr = Inr ca
      \<and> period_unrepeated ia \<and> period_unrepeated ba \<and> period_unrepeated ca"
  proof -
    from a have hh: "history prov tkr = Inr h"
      and cl: "idx h = [] \<or> cols h = [] \<or> VStr ''Close'' \<in> fst ` set (cols h)"
      and s: "income_stmt prov tkr = Inr ia" "balance_sheet prov tkr = Inr ba"
        "cashflow prov tkr = Inr ca" "period_unrepeated ia" "period_unrepeated ba"
        "period_unrepeated ca"
      by simp_all
    from load_hist_returns [OF hh cl] obtain h' where h': "load_hist prov tkr = Inr h'" ..
    from load_data_returns [OF h' s, of lib]
    have 1: "\<exists>r. load_data lib prov tkr = Inr r \<and> name r = load_name prov tkr"
      by blast
    have 2: "(\<exists>e. get_info prov tkr = Inl e) \<longrightarrow> load_name prov tkr = VNone"
      by (auto simp: load_name_failure)
    from 1 2 show ?thesis ..
  qed
  have B: "load_data lib prov tkr =
          Inr \<lparr>name = VNone, hist = h,
               inc = None, inc_period = VStr ''N/A'',
               bal = None, bal_period = VStr ''N/A'',
               cf = None, cf_period = VStr ''N/A''\<rparr>"
    if a: "no_info (get_info prov tkr)
      \<and> history prov tkr = Inr h \<and> idx h = []
      \<and> income_stmt prov tkr = Inr ia \<and> balance_sheet prov tkr = Inr ba
      \<and> cashflow prov tkr = Inr ca
      \<and> no_rows ia \<and> no_rows ba \<and> no_rows ca"
  proof -
    from a have h': "load_hist prov tkr = Inr h"
      using load_hist_cases [of prov tkr h] by simp
    from a have s: "income_stmt prov tkr = Inr ia" "balance_sheet prov tkr = Inr ba"
      "cashflow prov tkr = Inr ca" by simp_all
    from a have l: "latest_col ia = Inr (None, None)" "latest_col ba = Inr (None, None)"
      "latest_col ca = Inr (None, None)"
      by (simp_all add: latest_col_no_rows)
    have p: "pretty_period lib None = Inr (VStr ''N/A'')"
      by (rule pretty_period_None)
    from a have n: "load_name prov tkr = VNone"
      by (simp add: load_name_no_info)
    from load_data_intro [OF h' s l p p p] n show ?thesis
      by simp
  qed
  have P1: "\<forall>e. history prov tkr = Inl e \<longrightarrow> load_data lib prov tkr = Inl e"
    by (simp add: load_data_history_raises)
  have P2: "load_data lib prov tkr = Inl e"
    if a: "history prov tkr = Inr h
          \<and> (idx h = [] \<or> cols h = [] \<or> VStr ''Close'' \<in> fst ` set (cols h))
          \<and> income_stmt prov tkr = Inl e" for e
  proof -
    from a load_hist_returns [of prov tkr h] obtain h' where "load_hist prov tkr = Inr h'"
      by blast
    with a show ?thesis by (simp add: load_data_income_raises)
  qed
  have P3: "load_data lib prov tkr = Inl e"
    if a: "history prov tkr = Inr h
          \<and> (idx h = [] \<or> cols h = [] \<or> VStr ''Close'' \<in> fst ` set (cols h))
          \<and> income_stmt prov tkr = Inr ia \<and> balance_sheet prov tkr = Inl e" for e
  proof -
    from a load_hist_returns [of prov tkr h] obtain h' where "load_hist prov tkr = Inr h'"
      by blast
    with a show ?thesis by (simp add: load_data_balance_raises)
  qed
  have P4: "load_data lib prov tkr = Inl e"
    if a: "history prov tkr = Inr h
          \<and> (idx h = [] \<or> cols h = [] \<or> VStr ''Close'' \<in> fst ` set (cols h))
          \<and> income_stmt prov tkr = Inr ia \<and> balance_sheet prov tkr = Inr ba
          \<and> cashflow prov tkr = Inl e" for e
  proof -
    from a load_hist_returns [of prov tkr h] obtain h' where "load_hist prov tkr = Inr h'"
      by blast
    with a show ?thesis by (simp add: load_data_cashflow_raises)
  qed
  from A B P1 P2 P3 P4 show ?thesis
    by (intro conjI impI allI) blast+
qed

theorem load_data_degrades_witness:
  "no_info (get_info no_data_provider ''ZZZZ'')
   \<and> history no_data_provider ''ZZZZ'' = Inr \<lparr>idx = [], cols = []\<rparr>
   \<and> load_data sample_lib no_data_provider ''ZZZZ'' =
          Inr \<lparr>name = VNone, hist = \<lparr>idx = [], cols = []\<rparr>,
               inc = None, inc_period = VStr ''N/A'',
               bal = None, bal_period = VStr ''N/A'',
               cf = None, cf_period = VStr ''N/A''\<rparr>
   \<and> history failing_provider ''ZZZZ'' = Inl (ProviderError ''connection reset'')
   \<and> load_data sample_lib failing_provider ''ZZZZ'' = Inl (ProviderError ''connection reset'')
   \<and> income_stmt income_failing_provider ''ZZZZ'' = Inl (ProviderError ''timeout'')
   \<and> load_data sample_lib income_failing_provider ''ZZZZ'' = Inl (ProviderError ''timeout'')
   \<and> balance_sheet balance_failing_provider ''ZZZZ'' = Inl (ProviderError ''timeout'')
   \<and> load_data sample_lib balance_failing_provider ''ZZZZ'' = Inl (ProviderError ''timeout'')
   \<and> cashflow cashflow_failing_provider ''ZZZZ'' = Inl (ProviderError ''timeout'')
   \<and> load_data sample_lib cashflow_failing_provider ''ZZZZ'' = Inl (ProviderError ''timeout'')"
  using load_data_degrades [where prov = no_data_provider and tkr = "''ZZZZ''"
      and h = "\<lparr>idx = [], cols = []\<rparr>" and ia = None
      and ba = "Some \<lparr>idx = [], cols = []\<rparr>" and ca = None and lib = sample_lib]
    load_data_degrades [where prov = failing_provider and tkr = "''ZZZZ''"
      and h = "\<lparr>idx = [], cols = []\<rparr>" and ia = None and ba = None and ca = None
      and lib = sample_lib]
    load_data_degrades [where prov = income_failing_provider and tkr = "''ZZZZ''"
      and h = "\<lparr>idx = [], cols = []\<rparr>" and ia = None and ba = None and ca = None
      and lib = sample_lib]
    load_data_degrades [where prov = balance_failing_provider and tkr = "''ZZZZ''"
      and h = "\<lparr>idx = [], cols = []\<rparr>" and ia = None and ba = None and ca = None
      and lib = sample_lib]
    load_data_degrades [where prov = cashflow_failing_provider and tkr = "''ZZZZ''"
      and h = "\<lparr>idx = [], cols = []\<rparr>" and ia = None and ba = None and ca = None
      and lib = sample_lib]
  by (simp add: no_data_provider_def failing_provider_def income_failing_provider_def
      balance_failing_provider_def cashflow_failing_provider_def
      no_info_def no_rows_def period_unrepeated_def)

text \<open>
  Claim C1 as stated fails: an exception of the price history call, or of a statement
  property, is not caught, it leaves \<^verbatim>\<open>load_data\<close>.
\<close>

theorem load_data_raises_counterexample:
  "load_data sample_lib failing_provider ''LSEG.L'' = Inl (ProviderError ''connection reset'')
   \<and> load_data sample_lib income_failing_provider ''LSEG.L'' = Inl (ProviderError ''timeout'')"
  by (simp add: load_data_def failing_provider_def income_failing_provider_def load_hist_def
      empty_frame_def)

section \<open>The cache\<close>

lemma cache_hit:
  "fresh c now tkr \<Longrightarrow> entries c tkr = Some (r, t0) \<Longrightarrow> get_or_fetch p now tkr c = (r, c)"
  by (simp add: get_or_fetch_def fresh_def)

lemma cache_miss:
  "\<not> fresh c now tkr \<Longrightarrow>
   get_or_fetch p now tkr c =
     (p now tkr, c\<lparr>entries := (entries c)(tkr \<mapsto> (p now tkr, now)), calls := Suc (calls c)\<rparr>)"
  by (auto simp: get_or_fetch_def fresh_def Let_def split: option.splits)


text \<open>
  Claim C2. After a call that had to invoke the pipeline, a second call for the same
  ticker less than one hour later returns the same result and leaves the cache, with its
  count of invocations, as it was: the pipeline ran once for the two calls. Two calls
  that both find an entry younger than one hour return it without any invocation. A call
  that finds an entry of one hour or more invokes the pipeline once, stores the new
  result with the current time and returns it.
\<close>

theorem cache_idempotent:
  "(get_or_fetch p t1 tkr c0 = (r1, c1) \<and> \<not> fresh c0 t1 tkr \<and> t2 - t1 < TTL
      \<longrightarrow> r1 = p t1 tkr \<and> calls c1 = Suc (calls c0) \<and> entries c1 tkr = Some (r1, t1)
        \<and> get_or_fetch p t2 tkr c1 = (r1, c1))
   \<and> (get_or_fetch p t1 tkr c0 = (r1, c1) \<and> fresh c0 t1 tkr \<and> fresh c0 t2 tkr
      \<longrightarrow> c1 = c0 \<and> get_or_fetch p t2 tkr c1 = (r1, c1))
   \<and> (entries c0 tkr = Some (r0, t0) \<and> TTL \<le> t2 - t0
      \<longrightarrow> get_or_fetch p t2 tkr c0 =
            (p t2 tkr,
             c0\<lparr>entries := (entries c0)(tkr \<mapsto> (p t2 tkr, t2)), calls := Suc (calls c0)\<rparr>))"
proof (intro conjI impI)
  assume a: "get_or_fetch p t1 tkr c0 = (r1, c1) \<and> \<not> fresh c0 t1 tkr \<and> t2 - t1 < TTL"
  with cache_miss [of c0 t1 tkr p] have
    m: "r1 = p t1 tkr"
      "c1 = c0\<lparr>entries := (entries c0)(tkr \<mapsto> (p t1 tkr, t1)), calls := Suc (calls c0)\<rparr>"
    by simp_all
  from m show "r1 = p t1 tkr" by simp
  from m show "calls c1 = Suc (calls c0)" by simp
  from m show e: "entries c1 tkr = Some (r1, t1)" by simp
  from a e have "fresh c1 t2 tkr" by (simp add: fresh_def)
  from cache_hit [OF this e] show "get_or_fetch p t2 tkr c1 = (r1, c1)" .
next
  assume a: "get_or_fetch p t1 tkr c0 = (r1, c1) \<and> fresh c0 t1 tkr \<and> fresh c0 t2 tkr"
  then obtain r t0 where e: "entries c0 tkr = Some (r, t0)"
    by (auto simp: fresh_def split: option.splits)
  from a cache_hit [of c0 t1 tkr r t0 p] e have c: "r1 = r" "c1 = c0" by simp_all
  from c show "c1 = c0" by simp
  from a cache_hit [of c0 t2 tkr r t0 p] e c show "get_or_fetch p t2 tkr c1 = (r1, c1)"
    by simp
next
  assume "entries c0 tkr = Some (r0, t0) \<and> TTL \<le> t2 - t0"
  then have "\<not> fresh c0 t2 tkr" by (simp add: fresh_def)
  from cache_miss [OF this]
  show "get_or_fetch p t2 tkr c0 =
            (p t2 tkr,
             c0\<lparr>entries := (entries c0)(tkr \<mapsto> (p t2 tkr, t2)), calls := Suc (calls c0)\<rparr>)" .
qed

lemma demo_first:
  "get_or_fetch demo_pipeline 100 ''ABC'' empty_cache =
     ((''ABC'', 100), \<lparr>entries = [''ABC'' \<mapsto> ((''ABC'', 100), 100)], calls = 1\<rparr>)"
  by (simp add: get_or_fetch_def empty_cache_def demo_pipeline_def Let_def)

theorem cache_idempotent_witness:
  "\<not> fresh empty_cache 100 ''ABC'' \<and> (200::int) - 100 < TTL
   \<and> get_or_fetch demo_pipeline 200 ''ABC''
        \<lparr>entries = [''ABC'' \<mapsto> ((''ABC'', 100), 100)], calls = 1\<rparr> =
       ((''ABC'', 100), \<lparr>entries = [''ABC'' \<mapsto> ((''ABC'', 100), 100)], calls = 1\<rparr>)
   \<and> TTL \<le> (3700::int) - 100
   \<and> get_or_fetch demo_pipeline 3700 ''ABC''
        \<lparr>entries = [''ABC'' \<mapsto> ((''ABC'', 100), 100)], calls = 1\<rparr> =
       ((''ABC'', 3700), \<lparr>entries = [''ABC'' \<mapsto> ((''ABC'', 3700), 3700)], calls = 2\<rparr>)"
proof -
  have f: "\<not> fresh empty_cache 100 ''ABC''" "(200::int) - 100 < TTL" "TTL \<le> (3700::int) - 100"
    by (simp_all add: fresh_def empty_cache_def TTL_def)
  have e: "entries \<lparr>entries = [''ABC'' \<mapsto> ((''ABC'', 100::int), 100::int)], calls = 1\<rparr> ''ABC''
           = Some ((''ABC'', 100), 100)"
    by simp
  from cache_idempotent [of demo_pipeline 100 "''ABC''" empty_cache "(''ABC'', 100)"
      "\<lparr>entries = [''ABC'' \<mapsto> ((''ABC'', 100), 100)], calls = 1\<rparr>" 200]
    cache_idempotent [of demo_pipeline 100 "''ABC''"
      "\<lparr>entries = [''ABC'' \<mapsto> ((''ABC'', 100), 100)], calls = 1\<rparr>" "(''ABC'', 100)"
      "\<lparr>entries = [''ABC'' \<mapsto> ((''ABC'', 100), 100)], calls = 1\<rparr>" 3700 "(''ABC'', 100)" 100]
    demo_first f e
  show ?thesis
    by (simp add: demo_pipeline_def)
qed

section \<open>Tables on the heap\<close>

lemma apply_value_idx: "idx (apply_value f d) = idx d"
  by (simp add: apply_value_def)

lemma apply_value_labels: "map fst (cols (apply_value f d)) = map fst (cols d)"
  by (simp add: apply_value_def comp_def if_distrib cong: if_cong)

lemma apply_value_other:
  "j < length (cols d) \<Longrightarrow> fst (cols d ! j) \<noteq> VStr ''Value'' \<Longrightarrow>
   cols (apply_value f d) ! j = cols d ! j"
  by (simp add: apply_value_def)

lemma apply_value_two:
  "cols d = [(VStr ''Item'', is), (VStr ''Value'', vs)] \<Longrightarrow>
   apply_value f d = d\<lparr>cols := [(VStr ''Item'', is), (VStr ''Value'', map f vs)]\<rparr>"
  by (simp add: apply_value_def)

lemma format_commas_empty:
  "empty_frame (h ! a) \<Longrightarrow> format_commas lib h (Some a) = (h, Some a)"
  by (simp add: format_commas_def)

lemma format_commas_copy:
  "\<not> empty_frame (h ! a) \<Longrightarrow>
   format_commas lib h (Some a) =
     (h @ [if VStr ''Value'' \<in> fst ` set (cols (h ! a)) then apply_value (fmt lib) (h ! a)
           else h ! a], Some (length h))"
  by (simp add: format_commas_def Let_def)

text \<open>
  Claim C9. \<^verbatim>\<open>format_commas\<close> changes no table that existed before the call, the
  argument included: the heap after the call holds every old table unchanged. For a
  table that is not empty the returned reference is a new one, to a copy with the same
  rows and the same column labels in which every column not labelled Value is the
  column of the argument. An empty table and None are returned as they are.
\<close>

theorem format_commas_frame:
  assumes "a < length h" and "format_commas lib h (Some a) = (h', r)"
  shows "length h \<le> length h'
       \<and> (\<forall>b < length h. h' ! b = h ! b)
       \<and> h' ! a = h ! a
       \<and> (\<exists>out. r = Some out \<and> out < length h'
            \<and> (\<not> empty_frame (h ! a) \<longrightarrow> out = length h)
            \<and> idx (h' ! out) = idx (h ! a)
            \<and> map fst (cols (h' ! out)) = map fst (cols (h ! a))
            \<and> (\<forall>j < length (cols (h ! a)).
                  fst (cols (h ! a) ! j) \<noteq> VStr ''Value'' \<longrightarrow>
                  cols (h' ! out) ! j = cols (h ! a) ! j))
       \<and> format_commas lib h None = (h, None)"
proof (cases "empty_frame (h ! a)")
  case True
  from assms(2) format_commas_empty [OF True, of lib]
  have e: "h' = h" "r = Some a"
    by simp_all
  have n: "format_commas lib h None = (h, None)"
    by (simp add: format_commas_def)
  from e n assms(1) True show ?thesis
    by simp
next
  case False
  let ?new = "if VStr ''Value'' \<in> fst ` set (cols (h ! a)) then apply_value (fmt lib) (h ! a)
           else h ! a"
  from assms(2) format_commas_copy [OF False, of lib]
  have h': "h' = h @ [?new]" and r: "r = Some (length h)"
    by simp_all
  have old: "\<forall>b < length h. h' ! b = h ! b"
    using h' by (simp add: nth_append)
  have new: "h' ! length h = ?new"
    using h' by simp
  have i: "idx ?new = idx (h ! a)"
    by (simp add: apply_value_idx)
  have l: "map fst (cols ?new) = map fst (cols (h ! a))"
    by (simp add: apply_value_labels)
  have o: "\<forall>j < length (cols (h ! a)).
                  fst (cols (h ! a) ! j) \<noteq> VStr ''Value'' \<longrightarrow> cols ?new ! j = cols (h ! a) ! j"
    by (simp add: apply_value_other)
  have n: "format_commas lib h None = (h, None)"
    by (simp add: format_commas_def)
  from old assms(1) have "h' ! a = h ! a" by simp
  with old new i l o n r h' show ?thesis
    by simp
qed

section \<open>Grouping digits and rounding\<close>

lemma group3_short: "length ds \<le> 3 \<Longrightarrow> group3 ds = ds"
  by (simp add: group3.simps [of ds])

lemma group3_long:
  "\<not> length ds \<le> 3 \<Longrightarrow>
   group3 ds = group3 (take (length ds - 3) ds) @ CHR '','' # drop (length ds - 3) ds"
  by (subst group3.simps) simp

lemma group3_filter:
  "CHR '','' \<notin> set ds \<Longrightarrow> filter (\<lambda>c. c \<noteq> CHR '','') (group3 ds) = ds"
proof (induction ds rule: group3.induct)
  case (1 ds)
  show ?case
  proof (cases "length ds \<le> 3")
    case True
    with "1.prems" show ?thesis
      by (auto simp: group3_short filter_id_conv)
  next
    case False
    have t: "CHR '','' \<notin> set (take (length ds - 3) ds)"
      using "1.prems" by (auto dest: in_set_takeD)
    have d: "CHR '','' \<notin> set (drop (length ds - 3) ds)"
      using "1.prems" by (auto dest: in_set_dropD)
    from d have "filter (\<lambda>c. c \<noteq> CHR '','') (drop (length ds - 3) ds) = drop (length ds - 3) ds"
      by (auto simp: filter_id_conv)
    with "1.IH" [OF False t] False show ?thesis
      by (simp add: group3_long)
  qed
qed

lemma group3_length: "length (group3 ds) = length ds + (length ds - 1) div 3"
proof (induction ds rule: group3.induct)
  case (1 ds)
  show ?case
  proof (cases "length ds \<le> 3")
    case True
    then show ?thesis by (simp add: group3_short)
  next
    case False
    from "1.IH" [OF False] False show ?thesis
      by (simp add: group3_long)
  qed
qed

lemma comma_not_digit: "CHR '','' \<notin> set (dec_digits n)"
  using dec_digits_set [of n] by auto

lemma mod4_shift:
  fixes i L :: nat
  assumes "i < L"
  shows "(L + 4 - i) mod 4 = (L - i) mod 4"
proof -
  from assms have "L + 4 - i = (L - i) + 4" by arith
  then have "(L + 4 - i) mod 4 = ((L - i) + 4) mod 4" by (rule arg_cong)
  also have "\<dots> = (L - i) mod 4" by (rule mod_add_self2)
  finally show ?thesis .
qed

lemma mod4_small:
  fixes k :: nat
  assumes "0 < k" and "k < 4"
  shows "k mod 4 \<noteq> 0"
proof -
  from assms(2) have "k mod 4 = k" by (rule mod_less)
  with assms(1) show ?thesis by arith
qed

lemma nth_not_comma: "c \<notin> set xs \<Longrightarrow> i < length xs \<Longrightarrow> xs ! i \<noteq> c"
  by (metis nth_mem)

lemma group3_commas:
  "CHR '','' \<notin> set ds \<Longrightarrow> i < length (group3 ds) \<Longrightarrow>
   (group3 ds ! i = CHR '','') = ((length (group3 ds) - i) mod 4 = 0)"
proof (induction ds arbitrary: i rule: group3.induct)
  case (1 ds)
  show ?case
  proof (cases "length ds \<le> 3")
    case True
    then have s: "group3 ds = ds" by (rule group3_short)
    with "1.prems" have i: "i < length ds" by simp
    from nth_not_comma [OF "1.prems"(1) i] have n: "ds ! i \<noteq> CHR '',''" .
    have "0 < length ds - i" "length ds - i < 4"
      using True i by simp_all
    then have "(length ds - i) mod 4 \<noteq> 0" by (rule mod4_small)
    with n s show ?thesis by simp
  next
    case False
    define t where "t = take (length ds - 3) ds"
    define d where "d = drop (length ds - 3) ds"
    define g where "g = group3 t"
    have geq: "group3 ds = g @ CHR '','' # d"
      unfolding g_def t_def d_def using False by (rule group3_long)
    have ld: "length d = 3" using False by (simp add: d_def)
    have len: "length (group3 ds) = length g + 4"
      by (simp add: geq ld)
    have tc: "CHR '','' \<notin> set (take (length ds - 3) ds)"
      using "1.prems"(1) by (auto dest: in_set_takeD)
    have dc: "CHR '','' \<notin> set d"
      using "1.prems"(1) by (auto simp: d_def dest: in_set_dropD)
    have il: "i < length g + 4"
      using "1.prems"(2) len by simp
    consider (a) "i < length g" | (b) "i = length g" | (c) "length g < i"
      by linarith
    then show ?thesis
    proof cases
      case a
      then have a': "i < length (group3 (take (length ds - 3) ds))"
        by (simp add: g_def t_def)
      from "1.IH" [OF False tc a']
      have ih: "(g ! i = CHR '','') = ((length g - i) mod 4 = 0)"
        by (simp add: g_def t_def)
      have "group3 ds ! i = g ! i"
        using a by (simp add: geq nth_append)
      with ih mod4_shift [OF a] len show ?thesis
        by simp
    next
      case b
      have "group3 ds ! i = CHR '',''"
        using b by (simp add: geq)
      moreover have "length (group3 ds) - i = 4"
        using b len by simp
      ultimately show ?thesis by simp
    next
      case c
      define j where "j = i - length g - 1"
      have j: "j < length d" using c il ld by (simp add: j_def)
      have "i = length g + Suc j" using c by (simp add: j_def)
      then have "group3 ds ! i = d ! j"
        by (simp add: geq nth_append)
      with nth_not_comma [OF dc j] have n: "group3 ds ! i \<noteq> CHR '',''" by simp
      have "0 < length g + 4 - i" "length g + 4 - i < 4"
        using c il by simp_all
      then have "(length g + 4 - i) mod 4 \<noteq> 0" by (rule mod4_small)
      with n len show ?thesis by simp
    qed
  qed
qed

lemma round_half_even_near:
  assumes "e < 0"
  shows "2 * (round_half_even m e * 2 ^ nat (- e) - m) \<le> 2 ^ nat (- e)
       \<and> 2 * (m - round_half_even m e * 2 ^ nat (- e)) \<le> (2::nat) ^ nat (- e)"
proof -
  define d :: nat where "d = 2 ^ nat (- e)"
  define q where "q = m div d"
  define r where "r = m mod d"
  have dpos: "0 < d" by (simp add: d_def)
  have m: "m = q * d + r" by (simp add: q_def r_def)
  have r: "r < d" using dpos by (simp add: r_def)
  show ?thesis
  proof (cases "d < 2 * r \<or> (2 * r = d \<and> odd q)")
    case True
    then have "round_half_even m e = q + 1"
      using assms by (simp add: round_half_even_def d_def q_def r_def Let_def)
    then have "round_half_even m e * d = q * d + d"
      by (simp add: algebra_simps)
    with True r m show ?thesis
      unfolding d_def [symmetric] by auto
  next
    case False
    then have "round_half_even m e = q"
      using assms by (simp add: round_half_even_def d_def q_def r_def Let_def)
    with False r m show ?thesis
      unfolding d_def [symmetric] by auto
  qed
qed

lemma dec_digits_nonempty: "dec_digits n \<noteq> []"
  by (subst dec_digits.simps) simp

lemma digit_cases:
  assumes "d < (10::nat)"
  shows "d = 0 \<or> d = 1 \<or> d = 2 \<or> d = 3 \<or> d = 4 \<or> d = 5 \<or> d = 6 \<or> d = 7 \<or> d = 8 \<or> d = 9"
  using assms by arith

lemma digit_value_char:
  assumes "d < 10"
  shows "digit_value (digit_char d) = Some d"
  using digit_cases [OF assms] by (auto simp: digit_char_def digit_value_def)

lemma digit_char_zero:
  assumes "d < 10" and "0 < d"
  shows "digit_char d \<noteq> CHR ''0''"
  using digit_cases [OF assms(1)] assms(2) by (auto simp: digit_char_def)

lemma nat_of_digits_snoc:
  "nat_of_digits a (xs @ [c]) =
     (case nat_of_digits a xs of
        None \<Rightarrow> None
      | Some v \<Rightarrow> (case digit_value c of None \<Rightarrow> None | Some d \<Rightarrow> Some (10 * v + d)))"
  by (induction xs arbitrary: a) (simp_all split: option.splits)

lemma dec_digits_value: "nat_of_digits 0 (dec_digits n) = Some n"
proof (induction n rule: dec_digits.induct)
  case (1 n)
  show ?case
  proof (cases "n < 10")
    case True
    then show ?thesis
      by (simp add: dec_digits.simps [of n] digit_value_char)
  next
    case False
    have "n mod 10 < 10" by simp
    from "1.IH" [OF False] digit_value_char [OF this] False show ?thesis
      by (simp add: dec_digits.simps [of n] nat_of_digits_snoc)
  qed
qed

lemma dec_digits_leading: "0 < n \<Longrightarrow> hd (dec_digits n) \<noteq> CHR ''0''"
proof (induction n rule: dec_digits.induct)
  case (1 n)
  show ?case
  proof (cases "n < 10")
    case True
    with "1.prems" digit_char_zero [of n] show ?thesis
      by (simp add: dec_digits.simps [of n])
  next
    case False
    then have "0 < n div 10" by simp
    from "1.IH" [OF False this] False dec_digits_nonempty [of "n div 10"] show ?thesis
      by (simp add: dec_digits.simps [of n])
  qed
qed

lemma round_half_even_tie:
  "e < 0 \<Longrightarrow> 2 * (m mod 2 ^ nat (- e)) = 2 ^ nat (- e) \<Longrightarrow> even (round_half_even m e)"
  by (simp add: round_half_even_def Let_def)

section \<open>Rendered tables\<close>

lemma format_abc:
  "format_commas sample_lib [abc_inc_latest] (Some 0) =
     ([abc_inc_latest,
       \<lparr>idx = [VInt 0],
        cols = [(VStr ''Item'', [VStr ''Revenue'']), (VStr ''Value'', [VStr ''1,000,000''])]\<rparr>],
      Some 1)"
  by (simp add: format_commas_def abc_inc_latest_def empty_frame_def apply_value_def Let_def
      fmt_def try_except_def sample_lib_def sample_float_of_str_def parse_nat_def
      digit_value_def float_of_int_def round_half_even_def dec_digits.simps group3.simps
      digit_char_def)

theorem format_commas_frame_witness:
  "(0::nat) < length [abc_inc_latest]
   \<and> format_commas sample_lib [abc_inc_latest] (Some 0) =
     ([abc_inc_latest,
       \<lparr>idx = [VInt 0],
        cols = [(VStr ''Item'', [VStr ''Revenue'']), (VStr ''Value'', [VStr ''1,000,000''])]\<rparr>],
      Some 1)
   \<and> [abc_inc_latest,
       \<lparr>idx = [VInt 0],
        cols = [(VStr ''Item'', [VStr ''Revenue'']), (VStr ''Value'', [VStr ''1,000,000''])]\<rparr>] ! 0
      = [abc_inc_latest] ! 0"
proof -
  have l: "(0::nat) < length [abc_inc_latest]" by simp
  from format_commas_frame [OF l format_abc] l format_abc show ?thesis
    by blast
qed

lemma fmt_missing: "isna x \<Longrightarrow> fmt lib x = VStr ''''"
  by (simp add: fmt_def try_except_def)

lemma fmt_float: "\<not> isna x \<Longrightarrow> py_float lib x = Inr f \<Longrightarrow> fmt lib x = VStr (format_comma0 f)"
  by (simp add: fmt_def try_except_def)

lemma fmt_raise: "\<not> isna x \<Longrightarrow> py_float lib x = Inl e \<Longrightarrow> fmt lib x = x"
  by (simp add: fmt_def try_except_def)

lemma format_commas_item_value:
  assumes "idx (h ! a) \<noteq> []" and "cols (h ! a) = [(VStr ''Item'', is), (VStr ''Value'', vs)]"
  shows "format_commas lib h (Some a) =
           (h @ [(h ! a)\<lparr>cols := [(VStr ''Item'', is), (VStr ''Value'', map (fmt lib) vs)]\<rparr>],
            Some (length h))"
proof -
  have ne: "\<not> empty_frame (h ! a)"
    using assms by (simp add: empty_frame_def)
  from format_commas_copy [OF ne, of lib] assms(2) apply_value_two [OF assms(2), of "fmt lib"]
  show ?thesis by simp
qed

text \<open>
  Claim C7, amended. In the rendered copy of a statement table the column Value holds
  the image of each cell under \<^verbatim>\<open>fmt\<close>. A missing cell (None, NaN, NaT) is rendered
  as the empty string. A cell that is not missing and that \<^verbatim>\<open>float\<close> turns into a
  finite number is rendered as a minus sign, if the float is negative, followed by the
  grouped decimal digits of that number rounded to the nearest integer, ties to even.
  The decimal digits of a number are digits only, denote the number and start with no
  zero unless the number is zero; grouping them adds one comma for every three digits
  after the first, commas stand exactly at the positions that are a multiple of four
  from the end, and removing them gives the digits back. A cell that is not missing and
  for which \<^verbatim>\<open>float\<close> raises is rendered unchanged.
\<close>

theorem rendered_values:
  "(idx (h ! a) \<noteq> [] \<and> cols (h ! a) = [(VStr ''Item'', is), (VStr ''Value'', vs)] \<longrightarrow>
      format_commas lib h (Some a) =
        (h @ [(h ! a)\<lparr>cols := [(VStr ''Item'', is), (VStr ''Value'', map (fmt lib) vs)]\<rparr>],
         Some (length h)))
   \<and> (isna x \<longrightarrow> fmt lib x = VStr '''')
   \<and> (\<forall>neg m e. \<not> isna x \<and> py_float lib x = Inr (Finite neg m e) \<longrightarrow>
         fmt lib x =
           VStr ((if neg then ''-'' else '''') @ group3 (dec_digits (round_half_even m e))))
   \<and> (\<forall>n. dec_digits n \<noteq> []
         \<and> set (dec_digits n) \<subseteq> set ''0123456789''
         \<and> nat_of_digits 0 (dec_digits n) = Some n
         \<and> (0 < n \<longrightarrow> hd (dec_digits n) \<noteq> CHR ''0'')
         \<and> filter (\<lambda>c. c \<noteq> CHR '','') (group3 (dec_digits n)) = dec_digits n
         \<and> length (group3 (dec_digits n)) =
             length (dec_digits n) + (length (dec_digits n) - 1) div 3
         \<and> (\<forall>i < length (group3 (dec_digits n)).
               (group3 (dec_digits n) ! i = CHR '','')
               = ((length (group3 (dec_digits n)) - i) mod 4 = 0)))
   \<and> (\<forall>m e. (0 \<le> e \<longrightarrow> round_half_even m e = m * 2 ^ nat e)
         \<and> (e < 0 \<longrightarrow>
               2 * (round_half_even m e * 2 ^ nat (- e) - m) \<le> 2 ^ nat (- e)
             \<and> 2 * (m - round_half_even m e * 2 ^ nat (- e)) \<le> 2 ^ nat (- e)
             \<and> (2 * (m mod 2 ^ nat (- e)) = 2 ^ nat (- e) \<longrightarrow> even (round_half_even m e))))
   \<and> (\<forall>e. \<not> isna x \<and> py_float lib x = Inl e \<longrightarrow> fmt lib x = x)"
proof -
  have a: "idx (h ! a) \<noteq> [] \<and> cols (h ! a) = [(VStr ''Item'', is), (VStr ''Value'', vs)] \<longrightarrow>
      format_commas lib h (Some a) =
        (h @ [(h ! a)\<lparr>cols := [(VStr ''Item'', is), (VStr ''Value'', map (fmt lib) vs)]\<rparr>],
         Some (length h))"
    using format_commas_item_value by blast
  have b: "isna x \<longrightarrow> fmt lib x = VStr ''''"
    by (simp add: fmt_missing)
  have c: "\<forall>neg m e. \<not> isna x \<and> py_float lib x = Inr (Finite neg m e) \<longrightarrow>
         fmt lib x =
           VStr ((if neg then ''-'' else '''') @ group3 (dec_digits (round_half_even m e)))"
  proof (intro allI impI)
    fix neg m e
    assume "\<not> isna x \<and> py_float lib x = Inr (Finite neg m e)"
    then show "fmt lib x =
           VStr ((if neg then ''-'' else '''') @ group3 (dec_digits (round_half_even m e)))"
      using fmt_float [of x lib "Finite neg m e"] by simp
  qed
  have d: "dec_digits n \<noteq> []
         \<and> set (dec_digits n) \<subseteq> set ''0123456789''
         \<and> nat_of_digits 0 (dec_digits n) = Some n
         \<and> (0 < n \<longrightarrow> hd (dec_digits n) \<noteq> CHR ''0'')
         \<and> filter (\<lambda>c. c \<noteq> CHR '','') (group3 (dec_digits n)) = dec_digits n
         \<and> length (group3 (dec_digits n)) =
             length (dec_digits n) + (length (dec_digits n) - 1) div 3
         \<and> (\<forall>i < length (group3 (dec_digits n)).
               (group3 (dec_digits n) ! i = CHR '','')
               = ((length (group3 (dec_digits n)) - i) mod 4 = 0))" for n
  proof -
    have nc: "CHR '','' \<notin> set (dec_digits n)" by (rule comma_not_digit)
    have 1: "dec_digits n \<noteq> []" by (rule dec_digits_nonempty)
    have 2: "set (dec_digits n) \<subseteq> set ''0123456789''" by (rule dec_digits_set)
    have 3: "nat_of_digits 0 (dec_digits n) = Some n" by (rule dec_digits_value)
    have 4: "0 < n \<longrightarrow> hd (dec_digits n) \<noteq> CHR ''0''"
      using dec_digits_leading by blast
    have 5: "filter (\<lambda>c. c \<noteq> CHR '','') (group3 (dec_digits n)) = dec_digits n"
      using nc by (rule group3_filter)
    have 6: "length (group3 (dec_digits n)) =
             length (dec_digits n) + (length (dec_digits n) - 1) div 3"
      by (rule group3_length)
    have 7: "\<forall>i < length (group3 (dec_digits n)).
               (group3 (dec_digits n) ! i = CHR '','')
               = ((length (group3 (dec_digits n)) - i) mod 4 = 0)"
      using group3_commas [OF nc] by blast
    from 1 2 3 4 5 6 7 show ?thesis by (intro conjI)
  qed
  have r: "(0 \<le> e \<longrightarrow> round_half_even m e = m * 2 ^ nat e)
         \<and> (e < 0 \<longrightarrow>
               2 * (round_half_even m e * 2 ^ nat (- e) - m) \<le> 2 ^ nat (- e)
             \<and> 2 * (m - round_half_even m e * 2 ^ nat (- e)) \<le> 2 ^ nat (- e)
             \<and> (2 * (m mod 2 ^ nat (- e)) = 2 ^ nat (- e) \<longrightarrow> even (round_half_even m e)))"
    for m e
  proof -
    have 1: "0 \<le> e \<longrightarrow> round_half_even m e = m * 2 ^ nat e"
      by (simp add: round_half_even_def)
    have 2: "e < 0 \<longrightarrow>
               2 * (round_half_even m e * 2 ^ nat (- e) - m) \<le> 2 ^ nat (- e)
             \<and> 2 * (m - round_half_even m e * 2 ^ nat (- e)) \<le> 2 ^ nat (- e)
             \<and> (2 * (m mod 2 ^ nat (- e)) = 2 ^ nat (- e) \<longrightarrow> even (round_half_even m e))"
      using round_half_even_near [of e m] round_half_even_tie [of e m] by blast
    from 1 2 show ?thesis ..
  qed
  have f: "\<forall>e. \<not> isna x \<and> py_float lib x = Inl e \<longrightarrow> fmt lib x = x"
    using fmt_raise by blast
  from d have d': "\<forall>n. dec_digits n \<noteq> []
         \<and> set (dec_digits n) \<subseteq> set ''0123456789''
         \<and> nat_of_digits 0 (dec_digits n) = Some n
         \<and> (0 < n \<longrightarrow> hd (dec_digits n) \<noteq> CHR ''0'')
         \<and> filter (\<lambda>c. c \<noteq> CHR '','') (group3 (dec_digits n)) = dec_digits n
         \<and> length (group3 (dec_digits n)) =
             length (dec_digits n) + (length (dec_digits n) - 1) div 3
         \<and> (\<forall>i < length (group3 (dec_digits n)).
               (group3 (dec_digits n) ! i = CHR '','')
               = ((length (group3 (dec_digits n)) - i) mod 4 = 0))" ..
  from r have r': "\<forall>m e. (0 \<le> e \<longrightarrow> round_half_even m e = m * 2 ^ nat e)
         \<and> (e < 0 \<longrightarrow>
               2 * (round_half_even m e * 2 ^ nat (- e) - m) \<le> 2 ^ nat (- e)
             \<and> 2 * (m - round_half_even m e * 2 ^ nat (- e)) \<le> 2 ^ nat (- e)
             \<and> (2 * (m mod 2 ^ nat (- e)) = 2 ^ nat (- e) \<longrightarrow> even (round_half_even m e)))"
    by blast
  show ?thesis
    by (rule conjI [OF a conjI [OF b conjI [OF c conjI [OF d' conjI [OF r' f]]]]])
qed

theorem rendered_values_witness:
  "idx ([abc_inc_latest] ! 0) \<noteq> []
   \<and> format_commas sample_lib [abc_inc_latest] (Some 0) =
       ([abc_inc_latest,
         \<lparr>idx = [VInt 0],
          cols = [(VStr ''Item'', [VStr ''Revenue'']), (VStr ''Value'', [VStr ''1,000,000''])]\<rparr>],
        Some 1)
   \<and> isna VNone \<and> fmt sample_lib VNone = VStr []
   \<and> py_float sample_lib (VInt 1234567) = Inr (Finite False 1234567 0)
   \<and> fmt sample_lib (VInt 1234567) = VStr ''1,234,567''
   \<and> py_float sample_lib (VTimestamp 2023 12 31) = Inl TypeError
   \<and> fmt sample_lib (VTimestamp 2023 12 31) = VTimestamp 2023 12 31"
proof -
  note r1 = rendered_values [of "[abc_inc_latest]" 0 "[VStr ''Revenue'']" "[VInt 1000000]"
      sample_lib VNone]
  note r2 = rendered_values [of "[abc_inc_latest]" 0 "[VStr ''Revenue'']" "[VInt 1000000]"
      sample_lib "VTimestamp 2023 12 31"]
  note r3 = rendered_values [of "[abc_inc_latest]" 0 "[VStr ''Revenue'']" "[VInt 1000000]"
      sample_lib "VInt 1234567"]
  have t: "idx ([abc_inc_latest] ! 0) \<noteq> []"
    "cols ([abc_inc_latest] ! 0) = [(VStr ''Item'', [VStr ''Revenue'']), (VStr ''Value'', [VInt 1000000])]"
    by (simp_all add: abc_inc_latest_def)
  from r1 have "idx ([abc_inc_latest] ! 0) \<noteq> []
      \<and> cols ([abc_inc_latest] ! 0) = [(VStr ''Item'', [VStr ''Revenue'']), (VStr ''Value'', [VInt 1000000])]
      \<longrightarrow> format_commas sample_lib [abc_inc_latest] (Some 0) =
        ([abc_inc_latest] @ [([abc_inc_latest] ! 0)\<lparr>cols := [(VStr ''Item'', [VStr ''Revenue'']),
            (VStr ''Value'', map (fmt sample_lib) [VInt 1000000])]\<rparr>],
         Some (length [abc_inc_latest]))"
    by (elim conjE)
  with t have tab: "format_commas sample_lib [abc_inc_latest] (Some 0) =
        ([abc_inc_latest] @ [([abc_inc_latest] ! 0)\<lparr>cols := [(VStr ''Item'', [VStr ''Revenue'']),
            (VStr ''Value'', map (fmt sample_lib) [VInt 1000000])]\<rparr>],
         Some (length [abc_inc_latest]))"
    by blast
  from r1 have "isna VNone \<longrightarrow> fmt sample_lib VNone = VStr ''''"
    by (elim conjE)
  then have n: "fmt sample_lib VNone = VStr []"
    by simp
  have f: "py_float sample_lib (VInt 1234567) = Inr (Finite False 1234567 0)"
    by (simp add: float_of_int_def)
  from r3 have "\<forall>neg m e. \<not> isna (VInt 1234567)
      \<and> py_float sample_lib (VInt 1234567) = Inr (Finite neg m e) \<longrightarrow>
         fmt sample_lib (VInt 1234567) =
           VStr ((if neg then ''-'' else '''') @ group3 (dec_digits (round_half_even m e)))"
    by (elim conjE)
  from this [rule_format, of False 1234567 0] f
  have "fmt sample_lib (VInt 1234567) = VStr (group3 (dec_digits (round_half_even 1234567 0)))"
    by simp
  then have v: "fmt sample_lib (VInt 1234567) = VStr ''1,234,567''"
    by (simp add: round_half_even_def dec_digits.simps group3.simps digit_char_def)
  have g: "py_float sample_lib (VTimestamp 2023 12 31) = Inl TypeError"
    by simp
  from r2 have "\<forall>e. \<not> isna (VTimestamp 2023 12 31)
      \<and> py_float sample_lib (VTimestamp 2023 12 31) = Inl e \<longrightarrow>
      fmt sample_lib (VTimestamp 2023 12 31) = VTimestamp 2023 12 31"
    by (elim conjE)
  with g have u: "fmt sample_lib (VTimestamp 2023 12 31) = VTimestamp 2023 12 31"
    by simp
  from tab format_abc t n f v g u show ?thesis
    by simp
qed

text \<open>
  Claim C7 as stated fails on a value that is not numeric: a currency code is rendered
  as it is, not as the empty string.
\<close>

theorem non_numeric_unchanged_counterexample:
  "\<not> isna (VStr ''USD'')
   \<and> py_float sample_lib (VStr ''USD'') = Inl ValueError
   \<and> fmt sample_lib (VStr ''USD'') = VStr ''USD''
   \<and> fmt sample_lib (VStr ''USD'') \<noteq> VStr []"
  by (simp add: fmt_def try_except_def sample_lib_def sample_float_of_str_def parse_nat_def
      digit_value_def)




end
